theory Spec2Isabelle
  imports Main "HOL-Library.List_Lexorder"
begin

section \<open>Python library functions used by \<open>scripts/release.py\<close>\<close>

text \<open>
  Strings are lists of characters; the model covers the code points below 256, compared
  by code point as Python compares \<open>str\<close> values. Paths follow \<open>posixpath\<close>.
\<close>

type_synonym path = string

definition py_isspace :: "char \<Rightarrow> bool" where
  "py_isspace c = ((of_char c :: nat) \<in> {9, 10, 11, 12, 13, 28, 29, 30, 31, 32, 133, 160})"

text \<open>\<open>str.strip()\<close>: whitespace is removed at both ends.\<close>

definition strip :: "string \<Rightarrow> string" where
  "strip s = rev (dropWhile py_isspace (rev (dropWhile py_isspace s)))"

definition startswith :: "string \<Rightarrow> string \<Rightarrow> bool" where
  "startswith s p = (take (length p) s = p)"

definition endswith :: "string \<Rightarrow> string \<Rightarrow> bool" where
  "endswith s p = (length p \<le> length s \<and> drop (length s - length p) s = p)"

text \<open>
  \<open>s.split(sep)\<close> for a non-empty separator: the separator is searched from the left,
  occurrences do not overlap, and a string without the separator is returned whole.
  \<open>acc\<close> holds the characters of the current piece, newest first.
\<close>

function split_acc :: "string \<Rightarrow> string \<Rightarrow> string \<Rightarrow> string list" where
  "split_acc sep acc s =
     (if s = [] then [rev acc]
      else if sep \<noteq> [] \<and> take (length sep) s = sep
        then rev acc # split_acc sep [] (drop (length sep) s)
      else split_acc sep (hd s # acc) (tl s))"
  by pat_completeness auto
termination
  by (relation "measure (\<lambda>(sep, acc, s). length s)") auto

declare split_acc.simps [simp del]

definition split :: "string \<Rightarrow> string \<Rightarrow> string list" where
  "split s sep = split_acc sep [] s"

text \<open>
  \<open>int(s)\<close> on a string: surrounding whitespace and one sign are accepted, then at least
  one decimal digit. (Underscores between digits are accepted by Python too; the strings
  parsed by this program have been split at \<open>_\<close> before.)
\<close>

definition is_digit :: "char \<Rightarrow> bool" where
  "is_digit c = (48 \<le> (of_char c :: nat) \<and> (of_char c :: nat) \<le> 57)"

definition digits_value :: "string \<Rightarrow> int" where
  "digits_value ds = foldl (\<lambda>n c. 10 * n + (int (of_char c) - 48)) 0 ds"

datatype error =
    UnsupportedFormat
  | NonZeroReturn
  | ProblematicSymbol string string
  | ValueError
  | IndexError
  | KeyError
  | NameError
  | FileNotFoundError
  | FileExistsError
  | NotADirectoryError
  | IsADirectoryError
  | SymlinkError
  | URLError
  | ReadError
  | SystemExit nat

definition py_int :: "string \<Rightarrow> error + int" where
  "py_int s =
     (let t = strip s;
          neg = (t \<noteq> [] \<and> hd t = CHR ''-'');
          ds = (if t \<noteq> [] \<and> (hd t = CHR ''-'' \<or> hd t = CHR ''+'') then tl t else t)
      in if ds \<noteq> [] \<and> list_all is_digit ds
         then Inr (if neg then - digits_value ds else digits_value ds)
         else Inl ValueError)"

text \<open>
  Comparison of two Python sequences: the first position where the elements differ
  decides, by the elements' own order; with no such position the shorter one is smaller.
\<close>

fun py_lt :: "('a \<Rightarrow> 'a \<Rightarrow> bool) \<Rightarrow> 'a list \<Rightarrow> 'a list \<Rightarrow> bool" where
  "py_lt lt [] [] = False"
| "py_lt lt [] (y # ys) = True"
| "py_lt lt (x # xs) [] = False"
| "py_lt lt (x # xs) (y # ys) = (if x = y then py_lt lt xs ys else lt x y)"

definition int_list_gt :: "int list \<Rightarrow> int list \<Rightarrow> bool" where
  "int_list_gt a b = py_lt (\<lambda>x y. x < y) b a"

text \<open>\<open>os.path.basename\<close>: what follows the last slash.\<close>

definition basename :: "path \<Rightarrow> string" where
  "basename p = rev (takeWhile (\<lambda>c. c \<noteq> CHR ''/'') (rev p))"

section \<open>Symbol checking\<close>

text \<open>
  Lines 65 to 67 of \<open>check_symbols\<close>: the symbol is split at \<open>@@\<close> and the part after it
  at \<open>_\<close>, each into exactly two pieces (anything else fails the unpacking with a
  ValueError); the dotted version becomes a list of integers.
\<close>

fun int_all :: "string list \<Rightarrow> error + int list" where
  "int_all [] = Inr []"
| "int_all (v # vs) =
     (case py_int v of
        Inl e \<Rightarrow> Inl e
      | Inr n \<Rightarrow> (case int_all vs of Inl e \<Rightarrow> Inl e | Inr ns \<Rightarrow> Inr (n # ns)))"

definition parse_version :: "string \<Rightarrow> error + int list" where
  "parse_version symbol =
     (case split symbol ''@@'' of
        [_, version] \<Rightarrow>
          (case split version ''_'' of
             [_, version'] \<Rightarrow> int_all (split version' ''.'')
           | _ \<Rightarrow> Inl ValueError)
      | _ \<Rightarrow> Inl ValueError)"

text \<open>
  The loop of \<open>check_symbols\<close> over the lines that the \<open>nm\<close> pipeline printed: the first
  line that fails to parse or whose version exceeds \<open>max_version\<close> ends the loop.
\<close>

fun check_lines :: "path \<Rightarrow> int list \<Rightarrow> string list \<Rightarrow> error + unit" where
  "check_lines filename max_version [] = Inr ()"
| "check_lines filename max_version (line # rest) =
     (let symbol = strip line in
      case parse_version symbol of
        Inl e \<Rightarrow> Inl e
      | Inr version \<Rightarrow>
          if int_list_gt version max_version
          then Inl (ProblematicSymbol symbol (basename filename))
          else check_lines filename max_version rest)"

section \<open>The world the script runs in\<close>

text \<open>
  The file system is a list of entries in directory-listing order. A path names an entry
  by its spelling, trailing slashes apart; a path made of slashes only is the root
  directory. What the script
  cannot decide itself (the platform, the environment, external commands, the network,
  the contents of archives, the version of the interpreter's \<open>argparse\<close>) is a parameter
  of the model, the record \<open>ext\<close>: \<open>empty_choice_checked\<close> says that \<open>argparse\<close> checks an
  empty list of positional arguments against the choices, as CPython does up to version
  3.11 and no longer does from 3.12 on. The trace
  lists the calls the script makes to the operating system, oldest first; output to the
  terminal is not modelled.
\<close>

datatype target = AtFile | AtDir | AtOther | AtNothing

datatype node = Regular | Directory | Special | Symlink target

type_synonym fsys = "(path \<times> node) list"

datatype handler = Tar | Zip

datatype event =
    Download string path
  | OpenArchive handler path
  | ExtractAll handler path path
  | System string
  | Popen string
  | Remove path
  | Rmtree path
  | Makedirs path
  | Mkdir path
  | Chdir path
  | TarOpen path
  | TarAdd path path string
  | MakeArchive string path string

record world =
  fs :: fsys
  cwd :: path
  trace :: "event list"

record ext =
  platform_system :: string
  environ :: "string \<Rightarrow> string option"
  os_system :: "string \<Rightarrow> path \<Rightarrow> fsys \<Rightarrow> nat \<times> fsys"
  urlretrieve :: "string \<Rightarrow> bool"
  open_archive :: "handler \<Rightarrow> path \<Rightarrow> fsys \<Rightarrow> string list option"
  extractall :: "handler \<Rightarrow> path \<Rightarrow> path \<Rightarrow> fsys \<Rightarrow> fsys option"
  popen_lines :: "string \<Rightarrow> fsys \<Rightarrow> string list"
  empty_choice_checked :: bool

type_synonym 'a prog = "world \<Rightarrow> (error + 'a) \<times> world"

definition returnE :: "'a \<Rightarrow> 'a prog" where
  "returnE x w = (Inr x, w)"

definition raiseE :: "error \<Rightarrow> 'a prog" where
  "raiseE e w = (Inl e, w)"

definition bindE :: "'a prog \<Rightarrow> ('a \<Rightarrow> 'b prog) \<Rightarrow> 'b prog" where
  "bindE m f w = (case m w of (Inl e, w') \<Rightarrow> (Inl e, w') | (Inr x, w') \<Rightarrow> f x w')"

definition thenE :: "unit prog \<Rightarrow> 'b prog \<Rightarrow> 'b prog" where
  "thenE m n = bindE m (\<lambda>_. n)"

text \<open>A \<open>for\<close> loop whose body may raise.\<close>

fun forE :: "'a list \<Rightarrow> ('a \<Rightarrow> unit prog) \<Rightarrow> unit prog" where
  "forE [] body = returnE ()"
| "forE (x # xs) body = thenE (body x) (forE xs body)"

definition log :: "event \<Rightarrow> unit prog" where
  "log e w = (Inr (), w\<lparr>trace := trace w @ [e]\<rparr>)"

text \<open>
  \<open>check_symbols\<close>: the pipeline's command line is built from the file name and the
  label, and its output is read line by line.
\<close>

definition nm_command :: "path \<Rightarrow> string \<Rightarrow> string" where
  "nm_command filename label =
     ''nm '' @ [CHR 0x22] @ filename @ [CHR 0x22] @ '' | tr '' @ [CHR 0x27, CHR '' '', CHR 0x27]
       @ '' '' @ [CHR 0x27, CHR 0x0A, CHR 0x27] @ '' | grep @@'' @ label @ ''_''"

definition check_symbols :: "ext \<Rightarrow> path \<Rightarrow> string \<Rightarrow> int list \<Rightarrow> unit prog" where
  "check_symbols x filename label max_version =
     thenE (log (Popen (nm_command filename label)))
       (\<lambda>w. (check_lines filename max_version
                (popen_lines x (nm_command filename label) (fs w)), w))"

definition check_symbols_linux :: "ext \<Rightarrow> path \<Rightarrow> unit prog" where
  "check_symbols_linux x filename =
     thenE (check_symbols x filename ''GLIBC'' [2, 17, 0])
    (thenE (check_symbols x filename ''GLIBCXX'' [3, 4, 19])
           (check_symbols x filename ''CXXABI'' [1, 3, 7]))"

section \<open>Paths\<close>

definition all_slashes :: "path \<Rightarrow> bool" where
  "all_slashes p = (p \<noteq> [] \<and> list_all (\<lambda>c. c = CHR ''/'') p)"

definition rstrip_slashes :: "path \<Rightarrow> path" where
  "rstrip_slashes p = rev (dropWhile (\<lambda>c. c = CHR ''/'') (rev p))"

text \<open>
  \<open>os.path.split\<close>: the tail is what follows the last slash; the head is the rest,
  without its trailing slashes unless it consists of slashes only.
\<close>

definition path_split :: "path \<Rightarrow> path \<times> string" where
  "path_split p =
     (let tail = basename p;
          head = take (length p - length tail) p
      in (if head \<noteq> [] \<and> \<not> all_slashes head then rstrip_slashes head else head, tail))"

definition dirname :: "path \<Rightarrow> path" where
  "dirname p = fst (path_split p)"

text \<open>\<open>os.path.join\<close> of two components, and of three.\<close>

definition join :: "path \<Rightarrow> path \<Rightarrow> path" where
  "join a b =
     (if startswith b ''/'' then b
      else if a = [] \<or> endswith a ''/'' then a @ b
      else a @ ''/'' @ b)"

definition join3 :: "path \<Rightarrow> path \<Rightarrow> path \<Rightarrow> path" where
  "join3 a b c = join (join a b) c"

text \<open>
  \<open>os.path.commonpath\<close>. Python's \<open>min\<close> and \<open>max\<close> keep the first of equal elements;
  strings are compared by code point and lists of strings position by position.
\<close>

definition str_lt :: "string \<Rightarrow> string \<Rightarrow> bool" where
  "str_lt a b = py_lt (\<lambda>c d. (of_char c :: nat) < of_char d) a b"

definition py_min :: "string list \<Rightarrow> string list list \<Rightarrow> string list" where
  "py_min first rest = foldl (\<lambda>m x. if py_lt str_lt x m then x else m) first rest"

definition py_max :: "string list \<Rightarrow> string list list \<Rightarrow> string list" where
  "py_max first rest = foldl (\<lambda>m x. if py_lt str_lt m x then x else m) first rest"

text \<open>
  The loop over \<open>enumerate(s1)\<close>: the components of \<open>s1\<close> up to the first one that
  differs from the component of \<open>s2\<close> at the same index; reading \<open>s2\<close> beyond its end
  is an IndexError.
\<close>

fun common_components :: "string list \<Rightarrow> string list \<Rightarrow> error + string list" where
  "common_components [] s2 = Inr []"
| "common_components (c # s1) [] = Inl IndexError"
| "common_components (c # s1) (d # s2) =
     (if c \<noteq> d then Inr []
      else case common_components s1 s2 of Inl e \<Rightarrow> Inl e | Inr cs \<Rightarrow> Inr (c # cs))"

fun sep_join :: "string \<Rightarrow> string list \<Rightarrow> string" where
  "sep_join sep [] = []"
| "sep_join sep [c] = c"
| "sep_join sep (c # d # cs) = c @ sep @ sep_join sep (d # cs)"

definition commonpath :: "string list \<Rightarrow> error + string" where
  "commonpath paths =
     (case paths of
        [] \<Rightarrow> Inl ValueError
      | p # ps \<Rightarrow>
          let isabs = startswith p ''/'' in
          if list_ex (\<lambda>q. startswith q ''/'' \<noteq> isabs) ps then Inl ValueError
          else
            let split_paths = map (\<lambda>q. filter (\<lambda>c. c \<noteq> [] \<and> c \<noteq> ''.'') (split q ''/'')) paths;
                s1 = py_min (hd split_paths) (tl split_paths);
                s2 = py_max (hd split_paths) (tl split_paths)
            in (case common_components s1 s2 of
                  Inl e \<Rightarrow> Inl e
                | Inr common \<Rightarrow> Inr ((if isabs then ''/'' else []) @ sep_join ''/'' common)))"

section \<open>Regular expressions and shell patterns\<close>

text \<open>
  The fragment of \<open>re\<close> that the script's two patterns need. \<open>Many P\<close> is any number of
  characters satisfying \<open>P\<close>.
\<close>

datatype rexp =
    Lit string
  | Class "char \<Rightarrow> bool"
  | Many "char \<Rightarrow> bool"
  | Seq rexp rexp
  | Alt rexp rexp
  | Opt rexp

fun full_match :: "rexp \<Rightarrow> string \<Rightarrow> bool" where
  "full_match (Lit t) s = (s = t)"
| "full_match (Class P) s = (case s of [c] \<Rightarrow> P c | _ \<Rightarrow> False)"
| "full_match (Many P) s = list_all P s"
| "full_match (Seq a b) s =
     list_ex (\<lambda>i. full_match a (take i s) \<and> full_match b (drop i s)) [0..<Suc (length s)]"
| "full_match (Alt a b) s = (full_match a s \<or> full_match b s)"
| "full_match (Opt a) s = (s = [] \<or> full_match a s)"

text \<open>The dot of a pattern matches every character but the newline.\<close>

definition dot :: "char \<Rightarrow> bool" where
  "dot c = (c \<noteq> CHR 0x0A)"

definition any_char :: "char \<Rightarrow> bool" where
  "any_char c = True"

text \<open>
  \<open>re.search(body + '$', s)\<close>: some piece of \<open>s\<close> matches \<open>body\<close> and ends where \<open>$\<close>
  holds, which is at the end of \<open>s\<close> and just before a newline that ends \<open>s\<close>.
\<close>

definition search_end :: "rexp \<Rightarrow> string \<Rightarrow> bool" where
  "search_end body s =
     list_ex (\<lambda>i. full_match body (drop i s)
                 \<or> (s \<noteq> [] \<and> last s = CHR 0x0A \<and> full_match body (drop i (butlast s))))
       [0..<Suc (length s)]"

text \<open>
  \<open>re.sub(body + '$', '', s)\<close> for a body that matches neither the empty string nor a
  newline: a match cannot contain the newline that ends \<open>s\<close>, so it ends just before
  it, or at the end of a string without one. The leftmost match is removed; nothing
  after it can match again.
\<close>

definition sub_end :: "rexp \<Rightarrow> string \<Rightarrow> string" where
  "sub_end body s =
     (let keep = (if s \<noteq> [] \<and> last s = CHR 0x0A then [CHR 0x0A] else []);
          core = take (length s - length keep) s
      in case find (\<lambda>i. full_match body (drop i core)) [0..<length core] of
           None \<Rightarrow> s
         | Some i \<Rightarrow> take i core @ keep)"

text \<open>Line 33: \<open>(\.tar(\..+)?|tgz)$\<close>. Line 207: \<open>\.(tar(\..*)?|zip)$\<close>.\<close>

definition tar_pattern :: rexp where
  "tar_pattern =
     Alt (Seq (Lit ''.tar'') (Opt (Seq (Lit ''.'') (Seq (Class dot) (Many dot)))))
         (Lit ''tgz'')"

definition suffix_pattern :: rexp where
  "suffix_pattern =
     Seq (Lit ''.'')
         (Alt (Seq (Lit ''tar'') (Opt (Seq (Lit ''.'') (Many dot)))) (Lit ''zip''))"

text \<open>
  \<open>fnmatch\<close> for patterns of literal characters, \<open>*\<close> and \<open>?\<close> (the script's patterns have
  no brackets), case-sensitive as on POSIX systems.
\<close>

fun fnmatch_rexp :: "string \<Rightarrow> rexp" where
  "fnmatch_rexp [] = Lit []"
| "fnmatch_rexp (c # cs) =
     Seq (if c = CHR ''*'' then Many any_char
          else if c = CHR ''?'' then Class any_char
          else Lit [c])
         (fnmatch_rexp cs)"

definition fnmatch :: "string \<Rightarrow> string \<Rightarrow> bool" where
  "fnmatch name pat = full_match (fnmatch_rexp pat) name"

section \<open>File system operations\<close>

definition node_at :: "fsys \<Rightarrow> path \<Rightarrow> node option" where
  "node_at f p = (if all_slashes p then Some Directory else map_of f (rstrip_slashes p))"

text \<open>\<open>os.path.isdir\<close>, \<open>isfile\<close> and \<open>exists\<close> follow symbolic links; \<open>islink\<close> does not.\<close>

definition isdir :: "fsys \<Rightarrow> path \<Rightarrow> bool" where
  "isdir f p = (node_at f p = Some Directory \<or> node_at f p = Some (Symlink AtDir))"

definition isfile :: "fsys \<Rightarrow> path \<Rightarrow> bool" where
  "isfile f p = (node_at f p = Some Regular \<or> node_at f p = Some (Symlink AtFile))"

definition islink :: "fsys \<Rightarrow> path \<Rightarrow> bool" where
  "islink f p = (case node_at f p of Some (Symlink t) \<Rightarrow> True | _ \<Rightarrow> False)"

definition path_exists :: "fsys \<Rightarrow> path \<Rightarrow> bool" where
  "path_exists f p = (node_at f p \<noteq> None \<and> node_at f p \<noteq> Some (Symlink AtNothing))"

definition lexists :: "fsys \<Rightarrow> path \<Rightarrow> bool" where
  "lexists f p = (node_at f p \<noteq> None)"

text \<open>The entries below a directory are those spelled with the directory and a slash in front.\<close>

definition below :: "path \<Rightarrow> path \<Rightarrow> bool" where
  "below d p = startswith p (rstrip_slashes d @ ''/'')"

text \<open>
  \<open>os.mkdir\<close>: the path must be free and its parent a directory; a path without a
  directory part lies in the current directory, which exists.
\<close>

definition mkdir_fs :: "path \<Rightarrow> fsys \<Rightarrow> error option \<times> fsys" where
  "mkdir_fs p f =
     (if p = [] then (Some FileNotFoundError, f)
      else if lexists f p then (Some FileExistsError, f)
      else if dirname (rstrip_slashes p) = [] \<or> isdir f (dirname (rstrip_slashes p))
        then (None, f @ [(rstrip_slashes p, Directory)])
      else if path_exists f (dirname (rstrip_slashes p)) then (Some NotADirectoryError, f)
      else (Some FileNotFoundError, f))"

text \<open>
  \<open>os.makedirs(name)\<close>, with \<open>exist_ok\<close> left at False: the head of the path is made
  first when it does not exist, a FileExistsError of that recursive call is passed over,
  and then the directory itself is made.
\<close>

definition makedirs_parts :: "path \<Rightarrow> path \<times> string" where
  "makedirs_parts name =
     (if snd (path_split name) = [] then path_split (fst (path_split name))
      else path_split name)"

function makedirs_fs :: "path \<Rightarrow> fsys \<Rightarrow> error option \<times> fsys" where
  "makedirs_fs name f =
     (if fst (makedirs_parts name) \<noteq> [] \<and> snd (makedirs_parts name) \<noteq> []
         \<and> \<not> path_exists f (fst (makedirs_parts name))
      then
        (case makedirs_fs (fst (makedirs_parts name)) f of
           (r, f') \<Rightarrow>
             if r = None \<or> r = Some FileExistsError
             then (if snd (makedirs_parts name) = ''.'' then (None, f') else mkdir_fs name f')
             else (r, f'))
      else mkdir_fs name f)"
  by pat_completeness auto
termination
proof (relation "measure (\<lambda>(name, f). length name)")
  show "wf (measure (\<lambda>(name, f). length name))" by simp
next
  fix name :: path and f :: fsys
  assume a: "fst (makedirs_parts name) \<noteq> [] \<and> snd (makedirs_parts name) \<noteq> []
               \<and> \<not> path_exists f (fst (makedirs_parts name))"
  have le: "length (fst (path_split p)) + length (snd (path_split p)) \<le> length p" for p
  proof -
    have r: "length (rstrip_slashes q) \<le> length q" for q
      using length_dropWhile_le [of "\<lambda>c. c = CHR ''/''" "rev q"]
      by (simp add: rstrip_slashes_def)
    have b: "length (basename p) \<le> length p"
      using length_takeWhile_le [of "\<lambda>c. c \<noteq> CHR ''/''" "rev p"]
      by (simp add: basename_def)
    have h: "length (fst (path_split p)) \<le> length p - length (basename p)"
      using r [of "take (length p - length (basename p)) p"]
      by (simp add: path_split_def Let_def)
    have t: "snd (path_split p) = basename p"
      by (simp add: path_split_def Let_def)
    from h b t show ?thesis by simp
  qed
  have "length (fst (makedirs_parts name)) < length name"
  proof (cases "snd (path_split name) = []")
    case True
    with a have "0 < length (snd (path_split (fst (path_split name))))"
      by (simp add: makedirs_parts_def)
    with le [of "fst (path_split name)"] le [of name]
    have "length (fst (path_split (fst (path_split name)))) < length name"
      by linarith
    with True show ?thesis by (simp add: makedirs_parts_def)
  next
    case False
    then have "0 < length (snd (path_split name))" by simp
    with le [of name] have "length (fst (path_split name)) < length name"
      by linarith
    with False show ?thesis by (simp add: makedirs_parts_def)
  qed
  then show "((fst (makedirs_parts name), f), (name, f)) \<in> measure (\<lambda>(name, f). length name)"
    by simp
qed

declare makedirs_fs.simps [simp del]

text \<open>
  \<open>shutil.rmtree\<close> refuses a symbolic link and needs a directory; it removes the
  directory and everything below it. \<open>os.remove\<close> removes one entry that is not a
  directory.
\<close>

definition rmtree_fs :: "path \<Rightarrow> fsys \<Rightarrow> error option \<times> fsys" where
  "rmtree_fs d f =
     (if islink f d then (Some SymlinkError, f)
      else if node_at f d = None then (Some FileNotFoundError, f)
      else if node_at f d \<noteq> Some Directory then (Some NotADirectoryError, f)
      else (None, filter (\<lambda>(p, n). p \<noteq> rstrip_slashes d \<and> \<not> below d p) f))"

definition remove_fs :: "path \<Rightarrow> fsys \<Rightarrow> error option \<times> fsys" where
  "remove_fs p f =
     (if node_at f p = None then (Some FileNotFoundError, f)
      else if node_at f p = Some Directory then (Some IsADirectoryError, f)
      else (None, filter (\<lambda>(q, n). q \<noteq> rstrip_slashes p) f))"

text \<open>
  Opening a file for writing: a directory cannot be written, a file that is there is
  written over, and a new file needs its parent to be a directory (a path without a
  directory part lies in the current directory).
\<close>

definition write_fs :: "path \<Rightarrow> fsys \<Rightarrow> error option \<times> fsys" where
  "write_fs p f =
     (if isdir f p then (Some IsADirectoryError, f)
      else if lexists f p then (None, f)
      else if dirname p = [] \<or> isdir f (dirname p) then (None, f @ [(rstrip_slashes p, Regular)])
      else if path_exists f (dirname p) then (Some NotADirectoryError, f)
      else (Some FileNotFoundError, f))"

definition fs_op :: "event \<Rightarrow> (fsys \<Rightarrow> error option \<times> fsys) \<Rightarrow> unit prog" where
  "fs_op e g =
     thenE (log e)
       (\<lambda>w. case g (fs w) of
               (None, f') \<Rightarrow> (Inr (), w\<lparr>fs := f'\<rparr>)
             | (Some err, f') \<Rightarrow> (Inl err, w\<lparr>fs := f'\<rparr>))"

definition makedirs :: "path \<Rightarrow> unit prog" where
  "makedirs p = fs_op (Makedirs p) (makedirs_fs p)"

definition mkdir :: "path \<Rightarrow> unit prog" where
  "mkdir p = fs_op (Mkdir p) (mkdir_fs p)"

definition rmtree :: "path \<Rightarrow> unit prog" where
  "rmtree p = fs_op (Rmtree p) (rmtree_fs p)"

definition remove :: "path \<Rightarrow> unit prog" where
  "remove p = fs_op (Remove p) (remove_fs p)"

definition chdir :: "path \<Rightarrow> unit prog" where
  "chdir d =
     thenE (log (Chdir d))
       (\<lambda>w. if isdir (fs w) d then (Inr (), w\<lparr>cwd := d\<rparr>)
            else if path_exists (fs w) d then (Inl NotADirectoryError, w)
            else (Inl FileNotFoundError, w))"

text \<open>
  \<open>glob\<close> for a pattern whose directory part is absolute and has no wildcard or
  bracket: the entries of that directory, in listing order, whose names match the last component; a name with a
  leading dot is not matched by a pattern without one.
\<close>

definition glob :: "fsys \<Rightarrow> path \<Rightarrow> path list" where
  "glob f pathname =
     (let d = fst (path_split pathname);
          pat = snd (path_split pathname);
          pre = (if endswith d ''/'' then d else d @ ''/'')
      in if \<not> isdir f d then []
         else concat (map (\<lambda>(p, n).
                let name = drop (length pre) p
                in if startswith p pre \<and> name \<noteq> [] \<and> CHR ''/'' \<notin> set name
                      \<and> (startswith pat ''.'' \<or> \<not> startswith name ''.'')
                      \<and> fnmatch name pat
                   then [join d name] else []) f))"

section \<open>The script's helper functions\<close>

definition run :: "ext \<Rightarrow> string \<Rightarrow> unit prog" where
  "run x command =
     thenE (log (System command))
       (\<lambda>w. case os_system x command (cwd w) (fs w) of
               (status, f') \<Rightarrow>
                 (if status \<noteq> 0 then Inl NonZeroReturn else Inr (), w\<lparr>fs := f'\<rparr>))"

definition download_file :: "ext \<Rightarrow> string \<Rightarrow> path \<Rightarrow> path prog" where
  "download_file x url output_dir =
     (let filename = join output_dir (basename url) in
      thenE (log (Download url filename))
        (\<lambda>w. if \<not> urlretrieve x url then (Inl URLError, w)
             else case write_fs filename (fs w) of
                    (None, f') \<Rightarrow> (Inr filename, w\<lparr>fs := f'\<rparr>)
                  | (Some err, f') \<Rightarrow> (Inl err, w\<lparr>fs := f'\<rparr>)))"

text \<open>
  Lines 33 to 40 of \<open>extract_package\<close>: the format is detected and the package opened;
  the result is the kind of package and the names of its members.
\<close>

definition read_members :: "ext \<Rightarrow> handler \<Rightarrow> path \<Rightarrow> (handler \<times> string list) prog" where
  "read_members x h filename =
     thenE (log (OpenArchive h filename))
       (\<lambda>w. case open_archive x h filename (fs w) of
               None \<Rightarrow> (Inl ReadError, w)
             | Some members \<Rightarrow> (Inr (h, members), w))"

definition open_package :: "ext \<Rightarrow> path \<Rightarrow> (handler \<times> string list) prog" where
  "open_package x filename =
     (if search_end tar_pattern filename then read_members x Tar filename
      else if endswith filename ''.zip'' then read_members x Zip filename
      else raiseE UnsupportedFormat)"

definition extract_package :: "ext \<Rightarrow> path \<Rightarrow> path \<Rightarrow> unit prog" where
  "extract_package x filename output_dir =
     bindE (open_package x filename) (\<lambda>(package, members).
     bindE (\<lambda>w. (commonpath members, w)) (\<lambda>common.
       let output_dir' =
             (if common = basename output_dir then dirname output_dir else output_dir)
       in thenE (\<lambda>w. if \<not> isdir (fs w) output_dir' then makedirs output_dir' w
                      else returnE () w)
         (thenE (log (ExtractAll package filename output_dir'))
           (\<lambda>w. case extractall x package filename output_dir' (fs w) of
                   None \<Rightarrow> (Inl ReadError, w)
                 | Some f' \<Rightarrow> (Inr (), w\<lparr>fs := f'\<rparr>)))))"

text \<open>
  \<open>create_package\<close>. For a tar archive, \<open>tarfile.open\<close> opens the file for writing, then
  \<open>package.add\<close> reads the input directory, which must be there. For a zip archive
  \<open>shutil.make_archive\<close> gets the name without its last four characters, the parent of
  the input directory as root and its base name as base: the root must be a directory,
  the directory of the archive is made when it does not exist, the file with \<open>.zip\<close>
  appended is opened for writing, and the input directory is read unless its base name
  is empty or a dot.
\<close>

definition tar_add :: "path \<Rightarrow> path \<Rightarrow> unit prog" where
  "tar_add filename input_dir =
     thenE (log (TarAdd filename input_dir (basename input_dir)))
       (\<lambda>w. if lexists (fs w) input_dir then (Inr (), w) else (Inl FileNotFoundError, w))"

definition make_zip_fs :: "string \<Rightarrow> path \<Rightarrow> fsys \<Rightarrow> error option \<times> fsys" where
  "make_zip_fs base_name input_dir f =
     (if \<not> isdir f (dirname input_dir) then
        (Some (if path_exists f (dirname input_dir) then NotADirectoryError
               else FileNotFoundError), f)
      else
        case (if dirname base_name \<noteq> [] \<and> \<not> path_exists f (dirname base_name)
              then makedirs_fs (dirname base_name) f else (None, f)) of
          (Some e, f1) \<Rightarrow> (Some e, f1)
        | (None, f1) \<Rightarrow>
            (case write_fs (base_name @ ''.zip'') f1 of
               (Some e, f2) \<Rightarrow> (Some e, f2)
             | (None, f2) \<Rightarrow>
                 if basename input_dir \<noteq> [] \<and> basename input_dir \<noteq> ''.''
                    \<and> \<not> path_exists f2 input_dir
                 then (Some FileNotFoundError, f2)
                 else (None, f2)))"

definition create_package :: "path \<Rightarrow> path \<Rightarrow> unit prog" where
  "create_package filename input_dir =
     (if endswith filename ''.tar.gz'' then
        thenE (fs_op (TarOpen filename) (write_fs filename)) (tar_add filename input_dir)
      else if endswith filename ''.zip'' then
        fs_op (MakeArchive (take (length filename - 4) filename) (dirname input_dir)
                 (basename input_dir))
          (make_zip_fs (take (length filename - 4) filename) input_dir)
      else raiseE UnsupportedFormat)"

section \<open>The main function\<close>

datatype platform = windows | linux | macos

text \<open>Line 79: a system name outside the table is a KeyError.\<close>

definition detect_os :: "string \<Rightarrow> error + platform" where
  "detect_os name =
     (if name = ''Windows'' then Inr windows
      else if name = ''Linux'' then Inr linux
      else if name = ''Darwin'' then Inr macos
      else Inl KeyError)"

definition os_upper :: "platform \<Rightarrow> string" where
  "os_upper p = (case p of windows \<Rightarrow> ''WINDOWS'' | linux \<Rightarrow> ''LINUX'' | macos \<Rightarrow> ''MACOS'')"

text \<open>The result of \<open>parse_args\<close>; an option without a default that was not given is \<open>None\<close>.\<close>

record cfg =
  stage :: "string list"
  compiler :: string
  config :: string
  wrapper :: "string option"
  cmake_vars :: "string list option"

text \<open>
  The command line, split into what was given: the positional arguments, the values of
  \<open>--compiler\<close>, \<open>--config\<close> and \<open>--wrapper\<close>, and the values of every \<open>-D\<close> in order. (The
  way \<open>argparse\<close> splits the argument strings, and its help option, are not modelled.)
\<close>

record cmdline =
  stages :: "string list"
  compiler_arg :: "string option"
  config_arg :: "string option"
  wrapper_arg :: "string option"
  define_args :: "string list"

text \<open>Lines 82 to 84: the compilers of each platform.\<close>

definition compilers :: "platform \<Rightarrow> string list" where
  "compilers p =
     (case p of
        windows \<Rightarrow> [''msvc15'', ''msvc15-icc18'', ''msvc15-icc19'', ''msvc15-icc20'',
                     ''msvc16'', ''msvc16-icc19'', ''msvc16-icc20'']
      | linux \<Rightarrow> [''gcc'', ''clang'', ''icc'']
      | macos \<Rightarrow> [''clang'', ''icc''])"

definition choice_ok :: "string list \<Rightarrow> string option \<Rightarrow> bool" where
  "choice_ok choices v = (case v of None \<Rightarrow> True | Some s \<Rightarrow> s \<in> set choices)"

text \<open>
  Lines 86 to 93: a value outside the choices of its argument ends the program with exit
  status 2, and so does an empty list of stages where \<open>argparse\<close> checks it against the
  choices; the first compiler of the platform and \<open>Release\<close> are the defaults.
\<close>

definition parse_args :: "ext \<Rightarrow> platform \<Rightarrow> cmdline \<Rightarrow> error + cfg" where
  "parse_args x p a =
     (if (stages a = [] \<and> empty_choice_checked x)
         \<or> \<not> list_all (\<lambda>s. s \<in> set [''build'', ''package'']) (stages a)
         \<or> \<not> choice_ok (compilers p) (compiler_arg a)
         \<or> \<not> choice_ok [''Debug'', ''Release'', ''RelWithDebInfo''] (config_arg a)
      then Inl (SystemExit 2)
      else case compilers p of
             [] \<Rightarrow> Inl IndexError
           | first # others \<Rightarrow>
               Inr \<lparr>stage = stages a,
                    compiler = (case compiler_arg a of None \<Rightarrow> first | Some c \<Rightarrow> c),
                    config = (case config_arg a of None \<Rightarrow> ''Release'' | Some c \<Rightarrow> c),
                    wrapper = wrapper_arg a,
                    cmake_vars = (if define_args a = [] then None else Some (define_args a))\<rparr>)"

definition ISPC_VERSION :: string where
  "ISPC_VERSION = ''1.13.0''"

definition TBB_VERSION :: string where
  "TBB_VERSION = ''2020.2''"

definition lower :: "string \<Rightarrow> string" where
  "lower s =
     map (\<lambda>c. let n = (of_char c :: nat)
              in if (65 \<le> n \<and> n \<le> 90) \<or> (192 \<le> n \<and> n \<le> 222 \<and> n \<noteq> 215)
                 then char_of (n + 32) else c) s"

definition dq :: string where
  "dq = [CHR 0x22]"

text \<open>
  Lines 96 to 102: the root directory comes from the environment or is the current
  directory; the dependency directory is made when it is not a directory.
\<close>

definition root_dir_of :: "ext \<Rightarrow> world \<Rightarrow> path" where
  "root_dir_of x w =
     (case environ x ''OIDN_ROOT_DIR'' of
        None \<Rightarrow> cwd w
      | Some r \<Rightarrow> if r = [] then cwd w else r)"

definition set_directories :: "ext \<Rightarrow> cfg \<Rightarrow> (path \<times> path) prog" where
  "set_directories x c =
     (\<lambda>w. let root_dir = root_dir_of x w;
              deps_dir = join root_dir ''deps''
          in thenE (\<lambda>w. if \<not> isdir (fs w) deps_dir then makedirs deps_dir w
                         else returnE () w)
               (returnE (deps_dir, join root_dir (''build_'' @ lower (config c)))) w)"

text \<open>Lines 107 to 117: ISPC is downloaded and extracted unless its directory is there.\<close>

definition ispc_release :: "platform \<Rightarrow> string" where
  "ispc_release p =
     ''ispc-v'' @ ISPC_VERSION @ ''-''
       @ (case p of windows \<Rightarrow> ''windows'' | linux \<Rightarrow> ''linux'' | macos \<Rightarrow> ''macOS'')"

definition ispc_url :: "platform \<Rightarrow> string" where
  "ispc_url p =
     ''https://github.com/ispc/ispc/releases/download/v'' @ ISPC_VERSION @ ''/''
       @ ispc_release p @ (if p = windows then ''.zip'' else ''.tar.gz'')"

definition setup_ispc :: "ext \<Rightarrow> platform \<Rightarrow> path \<Rightarrow> path prog" where
  "setup_ispc x p deps_dir =
     (let ispc_dir = join deps_dir (ispc_release p) in
      thenE (\<lambda>w. if \<not> isdir (fs w) ispc_dir
                 then bindE (download_file x (ispc_url p) deps_dir) (\<lambda>ispc_filename.
                        thenE (extract_package x ispc_filename ispc_dir)
                              (remove ispc_filename)) w
                 else returnE () w)
            (returnE (join3 ispc_dir ''bin'' ''ispc'')))"

text \<open>Lines 120 to 130: the same for TBB.\<close>

definition tbb_release :: "platform \<Rightarrow> string" where
  "tbb_release p =
     ''tbb-'' @ TBB_VERSION @ ''-''
       @ (case p of windows \<Rightarrow> ''win'' | linux \<Rightarrow> ''lin'' | macos \<Rightarrow> ''mac'')"

definition tbb_url :: "platform \<Rightarrow> string" where
  "tbb_url p =
     ''https://github.com/oneapi-src/oneTBB/releases/download/v'' @ TBB_VERSION @ ''/''
       @ tbb_release p @ (if p = windows then ''.zip'' else ''.tgz'')"

definition setup_tbb :: "ext \<Rightarrow> platform \<Rightarrow> path \<Rightarrow> path prog" where
  "setup_tbb x p deps_dir =
     (let tbb_dir = join deps_dir (tbb_release p) in
      thenE (\<lambda>w. if \<not> isdir (fs w) tbb_dir
                 then bindE (download_file x (tbb_url p) deps_dir) (\<lambda>tbb_filename.
                        thenE (extract_package x tbb_filename tbb_dir)
                              (remove tbb_filename)) w
                 else returnE () w)
            (returnE (join tbb_dir ''tbb'')))"

text \<open>
  Lines 146 to 152: the loop over the parts of the compiler name. The state is the
  pair of \<open>msvc_version\<close>, unbound at first, and \<open>toolchain\<close>.
\<close>

fun windows_compiler :: "string list \<Rightarrow> string option \<times> string \<Rightarrow> error + string option \<times> string"
where
  "windows_compiler [] st = Inr st"
| "windows_compiler (part # parts) (msvc_version, toolchain) =
     (if startswith part ''msvc'' then
        (if part = ''msvc15'' then windows_compiler parts (Some ''15 2017'', toolchain)
         else if part = ''msvc16'' then windows_compiler parts (Some ''16 2019'', toolchain)
         else Inl KeyError)
      else if startswith part ''icc'' then
        windows_compiler parts
          (msvc_version, ''Intel C++ Compiler '' @ drop 3 part @ ''.0'')
      else windows_compiler parts (msvc_version, toolchain))"

text \<open>Lines 144 to 184: the configure step; the result is the build command.\<close>

definition configure_windows :: "ext \<Rightarrow> cfg \<Rightarrow> path \<Rightarrow> string \<Rightarrow> string prog" where
  "configure_windows x c ispc_executable vars =
     (case windows_compiler (split (compiler c) ''-'') (None, []) of
        Inl e \<Rightarrow> raiseE e
      | Inr (None, toolchain) \<Rightarrow> raiseE NameError
      | Inr (Some msvc_version, toolchain) \<Rightarrow>
          thenE (run x (''cmake -L '' @
                        ''-G '' @ dq @ ''Visual Studio '' @ msvc_version @ '' Win64'' @ dq @ '' '' @
                        ''-T '' @ dq @ toolchain @ dq @ '' '' @
                        ''-D ISPC_EXECUTABLE='' @ dq @ ispc_executable @ ''.exe'' @ dq @ '' '' @
                        vars @
                        ''..''))
            (returnE (''cmake --build . --config '' @ config c @ '' --target ALL_BUILD'')))"

definition cxx_of :: "string \<Rightarrow> error + string" where
  "cxx_of cc =
     (if cc = ''gcc'' then Inr ''g++''
      else if cc = ''clang'' then Inr ''clang++''
      else if cc = ''icc'' then Inr ''icpc''
      else Inl KeyError)"

definition configure_posix :: "ext \<Rightarrow> platform \<Rightarrow> cfg \<Rightarrow> path \<Rightarrow> string \<Rightarrow> string prog" where
  "configure_posix x p c ispc_executable vars =
     (case cxx_of (compiler c) of
        Inl e \<Rightarrow> raiseE e
      | Inr cxx0 \<Rightarrow>
          let icc_dir = (if compiler c = ''icc''
                         then (case environ x (''OIDN_ICC_DIR_'' @ os_upper p) of
                                 None \<Rightarrow> [] | Some d \<Rightarrow> d)
                         else []);
              cc = (if icc_dir \<noteq> [] then join icc_dir (compiler c) else compiler c);
              cxx = (if icc_dir \<noteq> [] then join icc_dir cxx0 else cxx0)
          in thenE (run x (''cmake -L '' @
                           ''-D CMAKE_C_COMPILER:FILEPATH='' @ dq @ cc @ dq @ '' '' @
                           ''-D CMAKE_CXX_COMPILER:FILEPATH='' @ dq @ cxx @ dq @ '' '' @
                           ''-D CMAKE_BUILD_TYPE='' @ config c @ '' '' @
                           ''-D ISPC_EXECUTABLE='' @ dq @ ispc_executable @ dq @ '' '' @
                           vars @
                           ''..''))
               (returnE ''cmake --build . --target preinstall -- -j VERBOSE=1''))"

text \<open>Lines 105 to 189: the build stage.\<close>

definition build_stage :: "ext \<Rightarrow> platform \<Rightarrow> cfg \<Rightarrow> path \<Rightarrow> path \<Rightarrow> unit prog" where
  "build_stage x p c deps_dir build_dir =
     bindE (setup_ispc x p deps_dir) (\<lambda>ispc_executable.
     bindE (setup_tbb x p deps_dir) (\<lambda>tbb_root.
     thenE (\<lambda>w. if isdir (fs w) build_dir then rmtree build_dir w else returnE () w)
    (thenE (mkdir build_dir)
    (thenE (chdir build_dir)
    (let vars = ''-D TBB_ROOT='' @ dq @ tbb_root @ dq @ '' '' @
                (case cmake_vars c of
                   None \<Rightarrow> []
                 | Some vs \<Rightarrow> concat (map (\<lambda>var. ''-D '' @ var @ '' '') vs))
     in bindE (if p = windows then configure_windows x c ispc_executable vars
               else configure_posix x p c ispc_executable vars) (\<lambda>build_cmd.
        run x (case wrapper c of
                 None \<Rightarrow> build_cmd
               | Some wr \<Rightarrow> if wr = [] then build_cmd else wr @ '' '' @ build_cmd)))))))"

text \<open>Lines 193 to 202 of the package stage: the package is built in the build directory.\<close>

definition build_package :: "ext \<Rightarrow> platform \<Rightarrow> cfg \<Rightarrow> path \<Rightarrow> unit prog" where
  "build_package x p c build_dir =
     thenE (chdir build_dir)
    (thenE (run x ''cmake -L -D OIDN_ZIP_MODE=ON ..'')
           (if p = windows
            then run x (''cmake --build . --config '' @ config c @ '' --target PACKAGE'')
            else run x ''cmake --build . --target package -- -j VERBOSE=1''))"

text \<open>Line 205: the first match of the pattern; indexing an empty list is an IndexError.\<close>

definition find_package :: "path \<Rightarrow> path prog" where
  "find_package build_dir =
     (\<lambda>w. case glob (fs w) (join build_dir ''oidn-*'') of
             [] \<Rightarrow> (Inl IndexError, w)
           | package_filename # others \<Rightarrow> (Inr package_filename, w))"

text \<open>Lines 210 to 215: the list of binaries.\<close>

definition get_binaries :: "platform \<Rightarrow> path \<Rightarrow> fsys \<Rightarrow> path list" where
  "get_binaries p package_dir f =
     filter (\<lambda>b. isfile f b \<and> \<not> islink f b)
       (glob f (join3 package_dir ''bin'' ''*'')
        @ (if p = linux then glob f (join3 package_dir ''lib'' ''*.so*'')
           else if p = macos then glob f (join3 package_dir ''lib'' ''*.dylib'')
           else []))"

text \<open>Lines 218 to 220: the symbols are checked on Linux.\<close>

definition check_binaries :: "ext \<Rightarrow> platform \<Rightarrow> path list \<Rightarrow> unit prog" where
  "check_binaries x p binaries =
     (if p = linux then forE binaries (check_symbols_linux x) else returnE ())"

text \<open>Lines 223 to 230: with a signing tool, the binaries are signed and the package is made again.\<close>

definition sign_binaries :: "ext \<Rightarrow> platform \<Rightarrow> path list \<Rightarrow> path \<Rightarrow> path \<Rightarrow> unit prog" where
  "sign_binaries x p binaries package_filename package_dir =
     (case environ x (''OIDN_SIGN_FILE_'' @ os_upper p) of
        None \<Rightarrow> returnE ()
      | Some sign_file \<Rightarrow>
          if sign_file = [] then returnE ()
          else thenE (forE binaries (\<lambda>filename. run x (sign_file @ '' -q -vv '' @ filename)))
              (thenE (remove package_filename)
                     (create_package package_filename package_dir)))"

text \<open>Lines 206 to 233: what the package stage does with the package it found.\<close>

definition process_package :: "ext \<Rightarrow> platform \<Rightarrow> path \<Rightarrow> path \<Rightarrow> unit prog" where
  "process_package x p build_dir package_filename =
     thenE (extract_package x package_filename build_dir)
       (let package_dir = sub_end suffix_pattern package_filename in
        bindE (\<lambda>w. (Inr (get_binaries p package_dir (fs w)), w)) (\<lambda>binaries.
        thenE (check_binaries x p binaries)
       (thenE (sign_binaries x p binaries package_filename package_dir)
              (rmtree package_dir))))"

definition package_stage :: "ext \<Rightarrow> platform \<Rightarrow> cfg \<Rightarrow> path \<Rightarrow> unit prog" where
  "package_stage x p c build_dir =
     thenE (build_package x p c build_dir)
       (bindE (find_package build_dir) (process_package x p build_dir))"

definition main :: "ext \<Rightarrow> cmdline \<Rightarrow> unit prog" where
  "main x a =
     bindE (\<lambda>w. (detect_os (platform_system x), w)) (\<lambda>p.
     bindE (\<lambda>w. (parse_args x p a, w)) (\<lambda>c.
     bindE (set_directories x c) (\<lambda>(deps_dir, build_dir).
     thenE (if ''build'' \<in> set (stage c) then build_stage x p c deps_dir build_dir
            else returnE ())
           (if ''package'' \<in> set (stage c) then package_stage x p c build_dir
            else returnE ()))))"

section \<open>Notions used to state the properties of symbol checking\<close>

text \<open>The lines that the pipeline of \<open>check_symbols\<close> prints for a file and a label.\<close>

definition symbol_lines :: "ext \<Rightarrow> path \<Rightarrow> string \<Rightarrow> world \<Rightarrow> string list" where
  "symbol_lines x filename label w = popen_lines x (nm_command filename label) (fs w)"

text \<open>Every line carries a symbol whose version parses as dotted integers.\<close>

definition versions_parse :: "string list \<Rightarrow> bool" where
  "versions_parse ls = list_all (\<lambda>l. \<not> isl (parse_version (strip l))) ls"

text \<open>
  Some line carries a version that is greater than the ceiling in the lexicographic order
  of lists (the order of \<open>HOL-Library.List_Lexorder\<close>).
\<close>

definition some_version_above :: "int list \<Rightarrow> string list \<Rightarrow> bool" where
  "some_version_above ceiling ls =
     list_ex (\<lambda>l. case parse_version (strip l) of Inl _ \<Rightarrow> False | Inr v \<Rightarrow> ceiling < v) ls"

definition is_problematic :: "path \<Rightarrow> error + unit \<Rightarrow> bool" where
  "is_problematic filename r =
     (case r of Inl (ProblematicSymbol s b) \<Rightarrow> b = basename filename | _ \<Rightarrow> False)"

text \<open>The three pipelines that \<open>check_symbols_linux\<close> runs on a binary.\<close>

definition symbol_pipelines :: "path \<Rightarrow> event list" where
  "symbol_pipelines b =
     [Popen (nm_command b ''GLIBC''), Popen (nm_command b ''GLIBCXX''),
      Popen (nm_command b ''CXXABI'')]"

section \<open>Concrete scenarios\<close>

definition newline :: string where
  "newline = [CHR 0x0A]"

definition demo_world :: world where
  "demo_world = \<lparr>fs = [], cwd = ''/r'', trace = []\<rparr>"

text \<open>A library that needs \<open>memcpy\<close> from glibc 2.28 and nothing else that is versioned.\<close>

definition symbols_ext :: ext where
  "symbols_ext = \<lparr>
     platform_system = ''Linux'',
     environ = (\<lambda>_. None),
     os_system = (\<lambda>cmd dir f. (0, f)),
     urlretrieve = (\<lambda>_. True),
     open_archive = (\<lambda>h p f. None),
     extractall = (\<lambda>h p t f. None),
     popen_lines = (\<lambda>cmd f.
        if cmd = nm_command ''/p/lib/libx.so'' ''GLIBC''
        then [''memcpy@@GLIBC_2.28'' @ newline, ''malloc@@GLIBC_2.2.5'' @ newline]
        else []),
     empty_choice_checked = False\<rparr>"

section \<open>Notions used to state the properties of the archive handler\<close>

text \<open>
  The tar-family suffixes as the specification lists them: \<open>.tar\<close>, \<open>.tgz\<close>, and
  \<open>.tar.\<close> followed by the name of a compression.
\<close>

definition tar_family_suffix :: "string \<Rightarrow> bool" where
  "tar_family_suffix s =
     (endswith s ''.tar'' \<or> endswith s ''.tgz''
      \<or> list_ex (\<lambda>i. startswith (drop i s) ''.tar.'' \<and> 5 < length (drop i s)) [0..<length s])"

text \<open>
  A path that can be opened for writing, and the file system after it has been: the
  file is there, and nothing else has changed.
\<close>

definition writable :: "fsys \<Rightarrow> path \<Rightarrow> bool" where
  "writable f p = (\<not> isdir f p \<and> (lexists f p \<or> dirname p = [] \<or> isdir f (dirname p)))"

definition written :: "fsys \<Rightarrow> path \<Rightarrow> fsys" where
  "written f p = (if lexists f p then f else f @ [(rstrip_slashes p, Regular)])"

text \<open>The events by which the script fetches or unpacks an archive.\<close>

definition is_fetch :: "event \<Rightarrow> bool" where
  "is_fetch e =
     (case e of
        Download u p \<Rightarrow> True
      | OpenArchive h p \<Rightarrow> True
      | ExtractAll h p t \<Rightarrow> True
      | _ \<Rightarrow> False)"

definition fetches :: "world \<Rightarrow> event list" where
  "fetches w = filter is_fetch (trace w)"

text \<open>A program that adds no such event, whatever the world it starts in.\<close>

definition quiet :: "'a prog \<Rightarrow> bool" where
  "quiet m = (\<forall>w. fetches (snd (m w)) = fetches w)"

text \<open>No entry of the file system is the directory or lies below it.\<close>

definition gone :: "fsys \<Rightarrow> path \<Rightarrow> bool" where
  "gone f d = list_all (\<lambda>(q, n). q \<noteq> rstrip_slashes d \<and> \<not> below d q) f"

text \<open>
  A Linux release: the package target of the build leaves
  \<open>oidn-1.2.tar.gz\<close> in the build directory; the archive holds a program,
  a shared library and a symbolic link to the library. The parameters are the exit status
  of the signing tool and the tool configured in the environment.
\<close>

definition pkg_file :: path where
  "pkg_file = ''/r/build_release/oidn-1.2.tar.gz''"

definition pkg_tree :: "(string \<times> node) list" where
  "pkg_tree =
     [(''oidn-1.2'', Directory),
      (''oidn-1.2/bin'', Directory),
      (''oidn-1.2/bin/oidnDenoise'', Regular),
      (''oidn-1.2/lib'', Directory),
      (''oidn-1.2/lib/libOIDN.so.1'', Regular),
      (''oidn-1.2/lib/libOIDN.so'', Symlink AtFile)]"

definition ispc_tree :: "(string \<times> node) list" where
  "ispc_tree =
     [(''ispc-v1.13.0-linux'', Directory),
      (''ispc-v1.13.0-linux/bin'', Directory),
      (''ispc-v1.13.0-linux/bin/ispc'', Regular)]"

definition pkg_ext :: "nat \<Rightarrow> string option \<Rightarrow> ext" where
  "pkg_ext sign_status sign_file = \<lparr>
     platform_system = ''Linux'',
     environ = (\<lambda>v. if v = ''OIDN_ROOT_DIR'' then Some ''/r''
                     else if v = ''OIDN_SIGN_FILE_LINUX'' then sign_file
                     else None),
     os_system = (\<lambda>cmd dir f.
        if startswith cmd ''cmake --build . --target package''
          then (0, f @ [(pkg_file, Regular)])
        else if startswith cmd ''/opt/sign'' then (sign_status, f)
        else (0, f)),
     urlretrieve = (\<lambda>_. True),
     open_archive = (\<lambda>h p f.
        if p = pkg_file then Some (map fst pkg_tree)
        else if p = ''/r/deps/ispc-v1.13.0-linux.tar.gz'' then Some (map fst ispc_tree)
        else None),
     extractall = (\<lambda>h p t f.
        if p = pkg_file then Some (f @ map (\<lambda>(m, n). (join t m, n)) pkg_tree)
        else if p = ''/r/deps/ispc-v1.13.0-linux.tar.gz''
          then Some (f @ map (\<lambda>(m, n). (join t m, n)) ispc_tree)
        else None),
     popen_lines = (\<lambda>cmd f. []),
     empty_choice_checked = False\<rparr>"

definition pkg_world :: world where
  "pkg_world =
     \<lparr>fs = [(''/r'', Directory), (''/r/deps'', Directory), (''/r/build_release'', Directory)],
      cwd = ''/r'', trace = []\<rparr>"

definition release_args :: "string list \<Rightarrow> cmdline" where
  "release_args given =
     \<lparr>stages = given, compiler_arg = None, config_arg = None, wrapper_arg = None,
      define_args = []\<rparr>"

definition release_cfg :: "string list \<Rightarrow> cfg" where
  "release_cfg given =
     \<lparr>stage = given, compiler = ''gcc'', config = ''Release'', wrapper = None,
      cmake_vars = None\<rparr>"

text \<open>The same machine after a first build: both dependencies are in place.\<close>

definition deps_world :: world where
  "deps_world =
     \<lparr>fs = [(''/r'', Directory), (''/r/deps'', Directory),
            (''/r/deps/ispc-v1.13.0-linux'', Directory),
            (''/r/deps/tbb-2020.2-lin'', Directory)],
      cwd = ''/r'', trace = []\<rparr>"

text \<open>The world after the package target has run there.\<close>

definition built_world :: world where
  "built_world =
     \<lparr>fs = [(''/r'', Directory), (''/r/deps'', Directory), (''/r/build_release'', Directory),
            (pkg_file, Regular)],
      cwd = ''/r/build_release'', trace = []\<rparr>"

definition pkg_bin :: path where
  "pkg_bin = ''/r/build_release/oidn-1.2/bin/oidnDenoise''"

definition pkg_lib :: path where
  "pkg_lib = ''/r/build_release/oidn-1.2/lib/libOIDN.so.1''"

text \<open>A machine on which the root directory \<open>/r\<close> named by the environment does not exist.\<close>

definition empty_world :: world where
  "empty_world = \<lparr>fs = [], cwd = ''/'', trace = []\<rparr>"

text \<open>A directory \<open>/r/p\<close> that is to be packed next to itself.\<close>

definition repack_world :: world where
  "repack_world =
     \<lparr>fs = [(''/r'', Directory), (''/r/p'', Directory), (''/r/p/oidn'', Regular)],
      cwd = ''/r'', trace = []\<rparr>"


text \<open>The Linux machine of the release with an interpreter up to CPython 3.11.\<close>

definition old_argparse_ext :: ext where
  "old_argparse_ext = (pkg_ext 0 None)\<lparr>empty_choice_checked := True\<rparr>"

section \<open>Symbol checking against the ceilings\<close>
lemma py_lt_lex: "py_lt (\<lambda>x y. x < y) a b = (a < (b::int list))"
  by (induction a b rule: list_induct2') auto

lemma check_lines_pass:
  "versions_parse ls \<Longrightarrow> (check_lines f m ls = Inr ()) = (\<not> some_version_above m ls)"
  by (induction ls)
     (auto simp: versions_parse_def some_version_above_def Let_def int_list_gt_def py_lt_lex
           split: sum.splits)

lemma check_lines_fail:
  "versions_parse ls \<Longrightarrow> is_problematic f (check_lines f m ls) = some_version_above m ls"
  by (induction ls)
     (auto simp: versions_parse_def some_version_above_def Let_def int_list_gt_def py_lt_lex
                 is_problematic_def
           split: sum.splits)

lemma check_symbols_fst:
  "fst (check_symbols x f label m w) = check_lines f m (symbol_lines x f label w)"
  by (simp add: check_symbols_def thenE_def bindE_def log_def symbol_lines_def)

lemma check_symbols_snd:
  "snd (check_symbols x f label m w) = w\<lparr>trace := trace w @ [Popen (nm_command f label)]\<rparr>"
  by (simp add: check_symbols_def thenE_def bindE_def log_def)

lemma symbol_lines_trace [simp]:
  "symbol_lines x f label (w\<lparr>trace := t\<rparr>) = symbol_lines x f label w"
  by (simp add: symbol_lines_def)

lemma check_symbols_linux_fst:
  "fst (check_symbols_linux x f w) =
     (case check_lines f [2, 17, 0] (symbol_lines x f ''GLIBC'' w) of
        Inl e \<Rightarrow> Inl e
      | Inr _ \<Rightarrow>
         (case check_lines f [3, 4, 19] (symbol_lines x f ''GLIBCXX'' w) of
            Inl e \<Rightarrow> Inl e
          | Inr _ \<Rightarrow> check_lines f [1, 3, 7] (symbol_lines x f ''CXXABI'' w)))"
proof -
  have b: "\<And>m n w. fst (thenE m n w) =
      (case fst (m w) of Inl e \<Rightarrow> Inl e | Inr _ \<Rightarrow> fst (n (snd (m w))))"
    by (auto simp: thenE_def bindE_def split: prod.splits sum.splits)
  show ?thesis
    by (simp add: check_symbols_linux_def b check_symbols_fst check_symbols_snd split: sum.splits)
qed


text \<open>
  C1. Take a binary whose versioned symbols all parse. \<open>check_symbols_linux\<close> ends with
  the problematic-symbol error exactly when, for one of the labels GLIBC, GLIBCXX and
  CXXABI, some symbol's version is lexicographically greater than the label's ceiling
  (2.17.0, 3.4.19 and 1.3.7), and it returns normally exactly when no version is. Against
  the ceiling 2.17.0 the versions 2.17.0 and 2.16.99 pass, 2.17.1 and 3.0.0 fail.
\<close>

theorem check_symbols_ceiling:
  assumes "versions_parse (symbol_lines x f ''GLIBC'' w)"
      and "versions_parse (symbol_lines x f ''GLIBCXX'' w)"
      and "versions_parse (symbol_lines x f ''CXXABI'' w)"
  shows "(is_problematic f (fst (check_symbols_linux x f w)) =
            (some_version_above [2, 17, 0] (symbol_lines x f ''GLIBC'' w)
             \<or> some_version_above [3, 4, 19] (symbol_lines x f ''GLIBCXX'' w)
             \<or> some_version_above [1, 3, 7] (symbol_lines x f ''CXXABI'' w)))
       \<and> ((fst (check_symbols_linux x f w) = Inr ()) =
            (\<not> (some_version_above [2, 17, 0] (symbol_lines x f ''GLIBC'' w)
             \<or> some_version_above [3, 4, 19] (symbol_lines x f ''GLIBCXX'' w)
             \<or> some_version_above [1, 3, 7] (symbol_lines x f ''CXXABI'' w))))
       \<and> check_lines f [2, 17, 0] [''memcpy@@GLIBC_2.17.0'' @ newline] = Inr ()
       \<and> check_lines f [2, 17, 0] [''memcpy@@GLIBC_2.16.99'' @ newline] = Inr ()
       \<and> is_problematic f (check_lines f [2, 17, 0] [''memcpy@@GLIBC_2.17.1'' @ newline])
       \<and> is_problematic f (check_lines f [2, 17, 0] [''memcpy@@GLIBC_3.0.0'' @ newline])"
proof -
  note p = check_lines_pass check_lines_fail
  have a: "is_problematic f (fst (check_symbols_linux x f w)) =
            (some_version_above [2, 17, 0] (symbol_lines x f ''GLIBC'' w)
             \<or> some_version_above [3, 4, 19] (symbol_lines x f ''GLIBCXX'' w)
             \<or> some_version_above [1, 3, 7] (symbol_lines x f ''CXXABI'' w))"
    using p[OF assms(1), of f "[2, 17, 0]"] p[OF assms(2), of f "[3, 4, 19]"]
          p[OF assms(3), of f "[1, 3, 7]"]
    by (auto simp: check_symbols_linux_fst is_problematic_def split: sum.splits error.splits)
  have b: "(fst (check_symbols_linux x f w) = Inr ()) =
            (\<not> (some_version_above [2, 17, 0] (symbol_lines x f ''GLIBC'' w)
             \<or> some_version_above [3, 4, 19] (symbol_lines x f ''GLIBCXX'' w)
             \<or> some_version_above [1, 3, 7] (symbol_lines x f ''CXXABI'' w)))"
    using p[OF assms(1), of f "[2, 17, 0]"] p[OF assms(2), of f "[3, 4, 19]"]
          p[OF assms(3), of f "[1, 3, 7]"]
    by (auto simp: check_symbols_linux_fst is_problematic_def split: sum.splits error.splits)
  have c: "check_lines f [2, 17, 0] [''memcpy@@GLIBC_2.17.0'' @ newline] = Inr ()"
    by code_simp
  have d: "check_lines f [2, 17, 0] [''memcpy@@GLIBC_2.16.99'' @ newline] = Inr ()"
    by code_simp
  have e: "is_problematic f (check_lines f [2, 17, 0] [''memcpy@@GLIBC_2.17.1'' @ newline])"
    by code_simp
  have g: "is_problematic f (check_lines f [2, 17, 0] [''memcpy@@GLIBC_3.0.0'' @ newline])"
    by code_simp
  from a b c d e g show ?thesis by blast
qed

theorem check_symbols_ceiling_witness:
  "versions_parse (symbol_lines symbols_ext ''/p/lib/libx.so'' ''GLIBC'' demo_world)
   \<and> versions_parse (symbol_lines symbols_ext ''/p/lib/libx.so'' ''GLIBCXX'' demo_world)
   \<and> versions_parse (symbol_lines symbols_ext ''/p/lib/libx.so'' ''CXXABI'' demo_world)
   \<and> some_version_above [2, 17, 0] (symbol_lines symbols_ext ''/p/lib/libx.so'' ''GLIBC'' demo_world)
   \<and> is_problematic ''/p/lib/libx.so'' (fst (check_symbols_linux symbols_ext ''/p/lib/libx.so'' demo_world))"
proof -
  have h1: "versions_parse (symbol_lines symbols_ext ''/p/lib/libx.so'' ''GLIBC'' demo_world)"
    by code_simp
  have h2: "versions_parse (symbol_lines symbols_ext ''/p/lib/libx.so'' ''GLIBCXX'' demo_world)"
    by code_simp
  have h3: "versions_parse (symbol_lines symbols_ext ''/p/lib/libx.so'' ''CXXABI'' demo_world)"
    by code_simp
  have above: "some_version_above [2, 17, 0]
      (symbol_lines symbols_ext ''/p/lib/libx.so'' ''GLIBC'' demo_world)"
    by code_simp
  from check_symbols_ceiling [OF h1 h2 h3] above
  have "is_problematic ''/p/lib/libx.so''
      (fst (check_symbols_linux symbols_ext ''/p/lib/libx.so'' demo_world))"
    by blast
  with h1 h2 h3 above show ?thesis by blast
qed

lemma prefix_not_greater: "\<not> py_lt (\<lambda>x y. x < y) (v @ e) (v :: int list)"
  by (induction v) (cases e, auto)

text \<open>
  C9. A symbol whose version has fewer components than the ceiling and agrees with the
  ceiling on all of them passes: the comparison ranks a strict prefix below the longer
  list, so the loop goes on to the next line. Version 2.17 passes the ceiling 2.17.0.
\<close>

theorem shorter_prefix_version_passes:
  "parse_version (strip line) = Inr v \<Longrightarrow> e \<noteq> [] \<Longrightarrow>
     \<not> int_list_gt v (v @ e)
     \<and> check_lines f (v @ e) (line # rest) = check_lines f (v @ e) rest
     \<and> check_lines f (v @ e) [line] = Inr ()
     \<and> check_lines f [2, 17, 0] [''memcpy@@GLIBC_2.17'' @ newline] = Inr ()"
proof -
  assume p: "parse_version (strip line) = Inr v"
  have a: "\<not> int_list_gt v (v @ e)"
    by (simp add: int_list_gt_def prefix_not_greater)
  have b: "check_lines f [2, 17, 0] [''memcpy@@GLIBC_2.17'' @ newline] = Inr ()"
    by code_simp
  from p a b show ?thesis by (simp add: Let_def)
qed

theorem shorter_prefix_version_passes_witness:
  "parse_version (strip (''memcpy@@GLIBC_2.17'' @ newline)) = Inr [2, 17]
   \<and> [0] \<noteq> ([] :: int list)
   \<and> check_lines ''/p/bin/app'' ([2, 17] @ [0]) [''memcpy@@GLIBC_2.17'' @ newline] = Inr ()"
proof -
  have h: "parse_version (strip (''memcpy@@GLIBC_2.17'' @ newline)) = Inr [2, 17]"
    by code_simp
  have n: "[0] \<noteq> ([] :: int list)" by simp
  from shorter_prefix_version_passes [OF h n, of "''/p/bin/app''" "[]"] h n
  show ?thesis by blast
qed

section \<open>Running programs\<close>

lemma bindE_Inr: "m w = (Inr v, w') \<Longrightarrow> bindE m f w = f v w'"
  by (simp add: bindE_def)

lemma bindE_Inl: "m w = (Inl e, w') \<Longrightarrow> bindE m f w = (Inl e, w')"
  by (simp add: bindE_def)

lemma thenE_Inr: "m w = (Inr (), w') \<Longrightarrow> thenE m n w = n w'"
  by (simp add: thenE_def bindE_def)

lemma thenE_Inl: "m w = (Inl e, w') \<Longrightarrow> thenE m n w = (Inl e, w')"
  by (simp add: thenE_def bindE_def)

lemma log_apply: "log e w = (Inr (), w\<lparr>trace := trace w @ [e]\<rparr>)"
  by (simp add: log_def)

lemma read_members_apply:
  "read_members x h fn w =
     (case open_archive x h fn (fs w) of
        None \<Rightarrow> (Inl ReadError, w\<lparr>trace := trace w @ [OpenArchive h fn]\<rparr>)
      | Some ms \<Rightarrow> (Inr (h, ms), w\<lparr>trace := trace w @ [OpenArchive h fn]\<rparr>))"
  by (simp add: read_members_def thenE_def bindE_def log_def split: option.splits)

lemma fs_op_apply:
  "fs_op e g w =
     (case fst (g (fs w)) of None \<Rightarrow> Inr () | Some err \<Rightarrow> Inl err,
      w\<lparr>trace := trace w @ [e], fs := snd (g (fs w))\<rparr>)"
  by (simp add: fs_op_def thenE_def bindE_def log_def split: option.splits prod.splits)

lemma mkdir_fs_error:
  "fst (mkdir_fs p f) \<noteq> Some UnsupportedFormat"
  by (simp add: mkdir_fs_def)

lemma makedirs_fs_error:
  "fst (makedirs_fs p f) \<noteq> Some UnsupportedFormat"
proof (induction p f rule: makedirs_fs.induct)
  case (1 name f)
  show ?case
    apply (subst makedirs_fs.simps)
    using 1 by (auto simp: mkdir_fs_error split: prod.splits)
qed

lemma commonpath_error: "commonpath ms \<noteq> Inl UnsupportedFormat"
proof -
  have c: "common_components a b \<noteq> Inl UnsupportedFormat" for a b
    by (induction a b rule: common_components.induct) (auto split: sum.splits)
  show ?thesis
    using c by (auto simp: commonpath_def Let_def split: list.splits sum.splits)
qed

lemma extract_after_open:
  "open_package x fn w = (Inr (h, ms), w1) \<Longrightarrow>
   fst (extract_package x fn d w) \<noteq> Inl UnsupportedFormat"
  using commonpath_error [of ms] makedirs_fs_error
  apply (auto simp: extract_package_def bindE_def Let_def thenE_def log_def returnE_def
        makedirs_def fs_op_apply
      split: sum.splits option.splits prod.splits if_splits)
  done

section \<open>The archive handler\<close>

lemma extract_unsupported_iff:
  "(fst (extract_package x fn d w) = Inl UnsupportedFormat) =
     (\<not> search_end tar_pattern fn \<and> \<not> endswith fn ''.zip'')"
proof (cases "search_end tar_pattern fn \<or> endswith fn ''.zip''")
  case True
  then obtain h where o: "open_package x fn = read_members x h fn"
    by (cases "search_end tar_pattern fn") (auto simp: open_package_def)
  show ?thesis
  proof (cases "open_archive x h fn (fs w)")
    case None
    with o True show ?thesis
      by (auto simp: extract_package_def bindE_def read_members_apply)
  next
    case (Some ms)
    with o have "open_package x fn w = (Inr (h, ms), w\<lparr>trace := trace w @ [OpenArchive h fn]\<rparr>)"
      by (simp add: read_members_apply)
    from extract_after_open [OF this] True show ?thesis by auto
  qed
next
  case False
  then show ?thesis
    by (auto simp: extract_package_def open_package_def bindE_def raiseE_def)
qed

text \<open>
  C3. The file name \<open>pkgtgz\<close> has none of the suffixes \<open>.tar\<close>, \<open>.tar.*\<close>, \<open>.tgz\<close> and
  \<open>.zip\<close>, yet \<open>extract_package\<close> takes it for a tar archive: the pattern of line 33
  accepts \<open>tgz\<close> without the dot, so no unsupported-format error is raised.
\<close>

theorem extract_accepts_tgz_without_dot:
  "\<not> tar_family_suffix ''pkgtgz'' \<and> \<not> endswith ''pkgtgz'' ''.zip''
   \<and> open_package x ''pkgtgz'' = read_members x Tar ''pkgtgz''
   \<and> fst (extract_package x ''pkgtgz'' d w) \<noteq> Inl UnsupportedFormat"
proof -
  have a: "\<not> tar_family_suffix ''pkgtgz''" by code_simp
  have b: "\<not> endswith ''pkgtgz'' ''.zip''" by code_simp
  have c: "search_end tar_pattern ''pkgtgz''" by code_simp
  from c have d: "open_package x ''pkgtgz'' = read_members x Tar ''pkgtgz''"
    by (simp add: open_package_def)
  from c have e: "fst (extract_package x ''pkgtgz'' d w) \<noteq> Inl UnsupportedFormat"
    by (simp add: extract_unsupported_iff)
  from a b d e show ?thesis by blast
qed

lemma endswith_drop:
  "endswith s (a @ b) \<Longrightarrow> drop (length s - length b) s = b"
proof -
  assume e: "endswith s (a @ b)"
  then have l: "length a + length b \<le> length s"
    and d: "drop (length s - (length a + length b)) s = a @ b"
    by (simp_all add: endswith_def)
  have "drop (length s - length b) s = drop (length a) (drop (length s - (length a + length b)) s)"
    using l by simp
  with d show ?thesis by simp
qed

lemma tgz_is_tar: "endswith s ''.tgz'' \<Longrightarrow> search_end tar_pattern s"
proof -
  assume e: "endswith s ''.tgz''"
  from endswith_drop [of s "''.''" "''tgz''"] e
  have "drop (length s - 3) s = ''tgz''" by (simp add: eval_nat_numeral)
  then have m: "full_match tar_pattern (drop (length s - 3) s)"
    by (simp add: tar_pattern_def)
  have "length s - 3 < Suc (length s)" by arith
  then have i: "length s - 3 \<in> set [0..<Suc (length s)]" by (simp del: upt_Suc)
  from m i show ?thesis
    unfolding search_end_def list_ex_iff by blast
qed

lemma tgz_not_created:
  "endswith s ''.tgz'' \<Longrightarrow> \<not> endswith s ''.tar.gz'' \<and> \<not> endswith s ''.zip''"
proof -
  assume e: "endswith s ''.tgz''"
  from endswith_drop [of s "''.''" "''tgz''"] e
  have t: "drop (length s - 3) s = ''tgz''" by (simp add: eval_nat_numeral)
  have "\<not> endswith s ''.tar.gz''"
  proof
    assume "endswith s ''.tar.gz''"
    from endswith_drop [of s "''.tar''" "''.gz''"] this
    have "drop (length s - 3) s = ''.gz''" by (simp add: eval_nat_numeral)
    with t show False by simp
  qed
  moreover have "\<not> endswith s ''.zip''"
  proof
    assume "endswith s ''.zip''"
    from endswith_drop [of s "''.''" "''zip''"] this
    have "drop (length s - 3) s = ''zip''" by (simp add: eval_nat_numeral)
    with t show False by simp
  qed
  ultimately show ?thesis by simp
qed

lemma write_fs_writable: "writable f p \<Longrightarrow> write_fs p f = (None, written f p)"
  by (auto simp: writable_def write_fs_def written_def)

lemma write_fs_refused:
  "\<not> writable f p \<Longrightarrow>
   \<exists>e. (e = IsADirectoryError \<or> e = NotADirectoryError \<or> e = FileNotFoundError)
       \<and> write_fs p f = (Some e, f)"
  by (auto simp: writable_def write_fs_def)

lemma zip_name: "endswith fn ''.zip'' \<Longrightarrow> take (length fn - 4) fn @ ''.zip'' = fn"
proof -
  assume "endswith fn ''.zip''"
  then have "drop (length fn - 4) fn = ''.zip''"
    by (simp add: endswith_def eval_nat_numeral)
  with append_take_drop_id [of "length fn - 4" fn] show ?thesis by simp
qed

lemma zip_not_tar: "endswith fn ''.zip'' \<Longrightarrow> \<not> endswith fn ''.tar.gz''"
proof
  assume "endswith fn ''.zip''" and "endswith fn ''.tar.gz''"
  from endswith_drop [of fn "''.zi''" "''p''"] endswith_drop [of fn "''.tar.g''" "''z''"] this
  show False by simp
qed

lemma create_tar:
  "endswith fn ''.tar.gz'' \<Longrightarrow>
   create_package fn d w =
     (case write_fs fn (fs w) of
        (Some e, f1) \<Rightarrow> (Inl e, w\<lparr>trace := trace w @ [TarOpen fn], fs := f1\<rparr>)
      | (None, f1) \<Rightarrow>
          (if lexists f1 d then Inr () else Inl FileNotFoundError,
           w\<lparr>trace := trace w @ [TarOpen fn, TarAdd fn d (basename d)], fs := f1\<rparr>))"
  by (auto simp: create_package_def fs_op_apply thenE_def bindE_def tar_add_def log_def
           split: prod.splits option.splits)

lemma create_zip:
  "endswith fn ''.zip'' \<Longrightarrow>
   create_package fn d w =
     (case fst (make_zip_fs (take (length fn - 4) fn) d (fs w)) of
        None \<Rightarrow> Inr () | Some e \<Rightarrow> Inl e,
      w\<lparr>trace := trace w @ [MakeArchive (take (length fn - 4) fn) (dirname d) (basename d)],
        fs := snd (make_zip_fs (take (length fn - 4) fn) d (fs w))\<rparr>)"
  by (simp add: create_package_def fs_op_apply zip_not_tar)

lemma make_zip_error: "fst (make_zip_fs b d f) \<noteq> Some UnsupportedFormat"
proof -
  let ?m = "if dirname b \<noteq> [] \<and> \<not> path_exists f (dirname b)
            then makedirs_fs (dirname b) f else (None, f)"
  obtain r1 f1 where s1: "?m = (r1, f1)" by (cases ?m)
  have "fst ?m \<noteq> Some UnsupportedFormat"
    by (simp add: makedirs_fs_error)
  with s1 have r1: "r1 \<noteq> Some UnsupportedFormat" by simp
  obtain r2 f2 where s2: "write_fs (b @ ''.zip'') f1 = (r2, f2)"
    by (cases "write_fs (b @ ''.zip'') f1")
  have "fst (write_fs (b @ ''.zip'') f1) \<noteq> Some UnsupportedFormat"
    by (simp add: write_fs_def)
  with s2 have r2: "r2 \<noteq> Some UnsupportedFormat" by simp
  show ?thesis
    unfolding make_zip_fs_def s1
    using s2 r1 r2 by (cases r1; cases r2) simp_all
qed

text \<open>
  C7. \<open>create_package\<close> raises the unsupported-format error, and does nothing else, for
  every file name that ends neither in \<open>.tar.gz\<close> nor in \<open>.zip\<close>; a name ending in
  \<open>.tgz\<close> is such a name, although \<open>extract_package\<close> opens it as a tar archive. For a
  name ending in \<open>.tar.gz\<close>: when the file can be opened for writing and the input
  directory is there, the call returns with the archive file written and the directory
  added under its own base name; when the input directory is missing, the file is
  written and the call fails in \<open>package.add\<close>; when the file cannot be opened, the
  call fails there and nothing is added. For a name ending in \<open>.zip\<close>: when the parent
  of the input directory is a directory, the directory of the archive exists, the file
  can be opened and the input directory is there, the call returns with the zip file
  written at the given name; a missing parent or a missing input directory fails the
  call; the error is never the unsupported-format error.
\<close>

theorem create_package_formats:
  "(\<not> endswith fn ''.tar.gz'' \<and> \<not> endswith fn ''.zip'' \<longrightarrow>
      create_package fn d w = (Inl UnsupportedFormat, w))
   \<and> (endswith fn ''.tgz'' \<longrightarrow>
      create_package fn d w = (Inl UnsupportedFormat, w)
      \<and> open_package x fn = read_members x Tar fn)
   \<and> (endswith fn ''.tar.gz'' \<longrightarrow>
        (writable (fs w) fn \<and> lexists (written (fs w) fn) d \<longrightarrow>
           create_package fn d w
             = (Inr (), w\<lparr>trace := trace w @ [TarOpen fn, TarAdd fn d (basename d)],
                          fs := written (fs w) fn\<rparr>))
      \<and> (writable (fs w) fn \<and> \<not> lexists (written (fs w) fn) d \<longrightarrow>
           create_package fn d w
             = (Inl FileNotFoundError,
                w\<lparr>trace := trace w @ [TarOpen fn, TarAdd fn d (basename d)],
                  fs := written (fs w) fn\<rparr>))
      \<and> (\<not> writable (fs w) fn \<longrightarrow>
           (\<exists>e. (e = IsADirectoryError \<or> e = NotADirectoryError \<or> e = FileNotFoundError)
              \<and> create_package fn d w
                  = (Inl e, w\<lparr>trace := trace w @ [TarOpen fn], fs := fs w\<rparr>))))
   \<and> (endswith fn ''.zip'' \<longrightarrow>
        take (length fn - 4) fn @ ''.zip'' = fn
      \<and> fst (create_package fn d w) \<noteq> Inl UnsupportedFormat
      \<and> trace (snd (create_package fn d w))
          = trace w @ [MakeArchive (take (length fn - 4) fn) (dirname d) (basename d)]
      \<and> (\<not> isdir (fs w) (dirname d) \<longrightarrow>
           fst (create_package fn d w)
             = Inl (if path_exists (fs w) (dirname d) then NotADirectoryError
                    else FileNotFoundError)
           \<and> fs (snd (create_package fn d w)) = fs w)
      \<and> (isdir (fs w) (dirname d)
          \<and> (dirname (take (length fn - 4) fn) = []
               \<or> path_exists (fs w) (dirname (take (length fn - 4) fn)))
          \<and> writable (fs w) fn \<longrightarrow>
           fs (snd (create_package fn d w)) = written (fs w) fn
           \<and> fst (create_package fn d w)
               = (if basename d \<noteq> [] \<and> basename d \<noteq> ''.''
                     \<and> \<not> path_exists (written (fs w) fn) d
                  then Inl FileNotFoundError else Inr ())))"
proof -
  have a: "\<not> endswith fn ''.tar.gz'' \<and> \<not> endswith fn ''.zip'' \<longrightarrow>
      create_package fn d w = (Inl UnsupportedFormat, w)"
    by (simp add: create_package_def raiseE_def)
  have b: "endswith fn ''.tgz'' \<longrightarrow>
      create_package fn d w = (Inl UnsupportedFormat, w)
      \<and> open_package x fn = read_members x Tar fn"
    using tgz_not_created [of fn] tgz_is_tar [of fn]
    by (simp add: create_package_def raiseE_def open_package_def)
  have t1: "create_package fn d w
             = (Inr (), w\<lparr>trace := trace w @ [TarOpen fn, TarAdd fn d (basename d)],
                          fs := written (fs w) fn\<rparr>)"
    if "endswith fn ''.tar.gz''" "writable (fs w) fn" "lexists (written (fs w) fn) d"
    using that by (simp add: create_tar write_fs_writable)
  have t2: "create_package fn d w
             = (Inl FileNotFoundError,
                w\<lparr>trace := trace w @ [TarOpen fn, TarAdd fn d (basename d)],
                  fs := written (fs w) fn\<rparr>)"
    if "endswith fn ''.tar.gz''" "writable (fs w) fn" "\<not> lexists (written (fs w) fn) d"
    using that by (simp add: create_tar write_fs_writable)
  have t3: "\<exists>e. (e = IsADirectoryError \<or> e = NotADirectoryError \<or> e = FileNotFoundError)
              \<and> create_package fn d w
                  = (Inl e, w\<lparr>trace := trace w @ [TarOpen fn], fs := fs w\<rparr>)"
    if tz: "endswith fn ''.tar.gz''" and nw: "\<not> writable (fs w) fn"
  proof -
    from write_fs_refused [OF nw] obtain e where
      e: "e = IsADirectoryError \<or> e = NotADirectoryError \<or> e = FileNotFoundError"
      and r: "write_fs fn (fs w) = (Some e, fs w)"
      by blast
    from tz r have "create_package fn d w
        = (Inl e, w\<lparr>trace := trace w @ [TarOpen fn], fs := fs w\<rparr>)"
      by (simp add: create_tar)
    with e show ?thesis by blast
  qed
  let ?b = "take (length fn - 4) fn"
  have z0: "fst (create_package fn d w) \<noteq> Inl UnsupportedFormat
      \<and> trace (snd (create_package fn d w))
          = trace w @ [MakeArchive ?b (dirname d) (basename d)]"
    if "endswith fn ''.zip''"
    using that make_zip_error [of ?b d "fs w"]
    by (cases "fst (make_zip_fs ?b d (fs w))") (simp_all add: create_zip)
  have z1: "fst (create_package fn d w)
             = Inl (if path_exists (fs w) (dirname d) then NotADirectoryError
                    else FileNotFoundError)
           \<and> fs (snd (create_package fn d w)) = fs w"
    if "endswith fn ''.zip''" "\<not> isdir (fs w) (dirname d)"
    using that by (simp add: create_zip make_zip_fs_def)
  have z2: "fs (snd (create_package fn d w)) = written (fs w) fn
           \<and> fst (create_package fn d w)
               = (if basename d \<noteq> [] \<and> basename d \<noteq> ''.''
                     \<and> \<not> path_exists (written (fs w) fn) d
                  then Inl FileNotFoundError else Inr ())"
    if z: "endswith fn ''.zip''" and r: "isdir (fs w) (dirname d)"
      and p: "dirname ?b = [] \<or> path_exists (fs w) (dirname ?b)"
      and wr: "writable (fs w) fn"
  proof -
    have m: "(if dirname ?b \<noteq> [] \<and> \<not> path_exists (fs w) (dirname ?b)
              then makedirs_fs (dirname ?b) (fs w) else (None, fs w)) = (None, fs w)"
      using p by auto
    have n: "write_fs (?b @ ''.zip'') (fs w) = (None, written (fs w) fn)"
      using wr by (simp add: zip_name [OF z] write_fs_writable)
    have "make_zip_fs ?b d (fs w)
        = (if basename d \<noteq> [] \<and> basename d \<noteq> ''.'' \<and> \<not> path_exists (written (fs w) fn) d
           then (Some FileNotFoundError, written (fs w) fn) else (None, written (fs w) fn))"
      unfolding make_zip_fs_def m using r n by simp
    then show ?thesis
      using z by (simp add: create_zip)
  qed
  from a b t1 t2 t3 z0 z1 z2 zip_name [of fn] show ?thesis by blast
qed

theorem create_package_formats_witness:
  "endswith ''tbb-2020.2-lin.tgz'' ''.tgz''
   \<and> create_package ''tbb-2020.2-lin.tgz'' ''/r/p'' repack_world
        = (Inl UnsupportedFormat, repack_world)
   \<and> open_package symbols_ext ''tbb-2020.2-lin.tgz''
        = read_members symbols_ext Tar ''tbb-2020.2-lin.tgz''
   \<and> \<not> endswith ''oidn.txt'' ''.tar.gz'' \<and> \<not> endswith ''oidn.txt'' ''.zip''
   \<and> create_package ''oidn.txt'' ''/r/p'' repack_world = (Inl UnsupportedFormat, repack_world)
   \<and> endswith ''/r/p.tar.gz'' ''.tar.gz''
   \<and> writable (fs repack_world) ''/r/p.tar.gz''
   \<and> lexists (written (fs repack_world) ''/r/p.tar.gz'') ''/r/p''
   \<and> written (fs repack_world) ''/r/p.tar.gz''
        = fs repack_world @ [(''/r/p.tar.gz'', Regular)]
   \<and> create_package ''/r/p.tar.gz'' ''/r/p'' repack_world
        = (Inr (), repack_world\<lparr>trace := trace repack_world
                       @ [TarOpen ''/r/p.tar.gz'', TarAdd ''/r/p.tar.gz'' ''/r/p'' (basename ''/r/p'')],
                     fs := written (fs repack_world) ''/r/p.tar.gz''\<rparr>)
   \<and> \<not> writable (fs demo_world) ''/r/p.tar.gz''
   \<and> (\<exists>e. (e = IsADirectoryError \<or> e = NotADirectoryError \<or> e = FileNotFoundError)
          \<and> create_package ''/r/p.tar.gz'' ''/r/p'' demo_world
              = (Inl e, demo_world\<lparr>trace := trace demo_world @ [TarOpen ''/r/p.tar.gz''],
                                  fs := fs demo_world\<rparr>))
   \<and> endswith ''/r/p.zip'' ''.zip''
   \<and> isdir (fs repack_world) (dirname ''/r/p'')
   \<and> path_exists (fs repack_world) (dirname (take (length ''/r/p.zip'' - 4) ''/r/p.zip''))
   \<and> writable (fs repack_world) ''/r/p.zip''
   \<and> path_exists (written (fs repack_world) ''/r/p.zip'') ''/r/p''
   \<and> written (fs repack_world) ''/r/p.zip'' = fs repack_world @ [(''/r/p.zip'', Regular)]
   \<and> fs (snd (create_package ''/r/p.zip'' ''/r/p'' repack_world))
        = written (fs repack_world) ''/r/p.zip''
   \<and> fst (create_package ''/r/p.zip'' ''/r/p'' repack_world) = Inr ()
   \<and> \<not> isdir (fs demo_world) (dirname ''/r/p'')
   \<and> \<not> path_exists (fs demo_world) (dirname ''/r/p'')
   \<and> fst (create_package ''/r/p.zip'' ''/r/p'' demo_world) = Inl FileNotFoundError"
proof -
  have h1: "endswith ''tbb-2020.2-lin.tgz'' ''.tgz''" by code_simp
  have h2: "\<not> endswith ''oidn.txt'' ''.tar.gz'' \<and> \<not> endswith ''oidn.txt'' ''.zip''" by code_simp
  have h3: "endswith ''/r/p.tar.gz'' ''.tar.gz''" by code_simp
  have h4: "writable (fs repack_world) ''/r/p.tar.gz''" by code_simp
  have h5: "lexists (written (fs repack_world) ''/r/p.tar.gz'') ''/r/p''" by code_simp
  have h6: "written (fs repack_world) ''/r/p.tar.gz''
        = fs repack_world @ [(''/r/p.tar.gz'', Regular)]" by code_simp
  have h7: "\<not> writable (fs demo_world) ''/r/p.tar.gz''" by code_simp
  have k1: "endswith ''/r/p.zip'' ''.zip''" by code_simp
  have k2: "isdir (fs repack_world) (dirname ''/r/p'')" by code_simp
  have k3: "path_exists (fs repack_world) (dirname (take (length ''/r/p.zip'' - 4) ''/r/p.zip''))"
    by code_simp
  have k4: "writable (fs repack_world) ''/r/p.zip''" by code_simp
  have k5: "path_exists (written (fs repack_world) ''/r/p.zip'') ''/r/p''" by code_simp
  have k6: "written (fs repack_world) ''/r/p.zip'' = fs repack_world @ [(''/r/p.zip'', Regular)]"
    by code_simp
  have k7: "\<not> isdir (fs demo_world) (dirname ''/r/p'')" by code_simp
  have k8: "\<not> path_exists (fs demo_world) (dirname ''/r/p'')" by code_simp
  note a = create_package_formats [of "''tbb-2020.2-lin.tgz''" "''/r/p''" repack_world symbols_ext]
  note b = create_package_formats [of "''oidn.txt''" "''/r/p''" repack_world symbols_ext]
  note c = create_package_formats [of "''/r/p.tar.gz''" "''/r/p''" repack_world symbols_ext]
  note d = create_package_formats [of "''/r/p.tar.gz''" "''/r/p''" demo_world symbols_ext]
  note e = create_package_formats [of "''/r/p.zip''" "''/r/p''" repack_world symbols_ext]
  note f = create_package_formats [of "''/r/p.zip''" "''/r/p''" demo_world symbols_ext]
  from a h1 have r1: "create_package ''tbb-2020.2-lin.tgz'' ''/r/p'' repack_world
        = (Inl UnsupportedFormat, repack_world)
      \<and> open_package symbols_ext ''tbb-2020.2-lin.tgz''
        = read_members symbols_ext Tar ''tbb-2020.2-lin.tgz''"
    by blast
  from b h2 have r2: "create_package ''oidn.txt'' ''/r/p'' repack_world
      = (Inl UnsupportedFormat, repack_world)"
    by blast
  from c h3 h4 h5 have r3: "create_package ''/r/p.tar.gz'' ''/r/p'' repack_world
        = (Inr (), repack_world\<lparr>trace := trace repack_world
                       @ [TarOpen ''/r/p.tar.gz'', TarAdd ''/r/p.tar.gz'' ''/r/p'' (basename ''/r/p'')],
                     fs := written (fs repack_world) ''/r/p.tar.gz''\<rparr>)"
    by blast
  from d h3 h7 have r4: "\<exists>e. (e = IsADirectoryError \<or> e = NotADirectoryError \<or> e = FileNotFoundError)
          \<and> create_package ''/r/p.tar.gz'' ''/r/p'' demo_world
              = (Inl e, demo_world\<lparr>trace := trace demo_world @ [TarOpen ''/r/p.tar.gz''],
                                  fs := fs demo_world\<rparr>)"
    by blast
  from e k1 k2 k3 k4 have r5: "fs (snd (create_package ''/r/p.zip'' ''/r/p'' repack_world))
        = written (fs repack_world) ''/r/p.zip''
      \<and> fst (create_package ''/r/p.zip'' ''/r/p'' repack_world)
          = (if basename ''/r/p'' \<noteq> [] \<and> basename ''/r/p'' \<noteq> ''.''
                \<and> \<not> path_exists (written (fs repack_world) ''/r/p.zip'') ''/r/p''
             then Inl FileNotFoundError else Inr ())"
    by blast
  with k5 have r6: "fst (create_package ''/r/p.zip'' ''/r/p'' repack_world) = Inr ()"
    by (simp only: simp_thms if_False)
  from f k1 k7 have "fst (create_package ''/r/p.zip'' ''/r/p'' demo_world)
      = Inl (if path_exists (fs demo_world) (dirname ''/r/p'') then NotADirectoryError
             else FileNotFoundError)"
    by blast
  with k8 have r7: "fst (create_package ''/r/p.zip'' ''/r/p'' demo_world) = Inl FileNotFoundError"
    by (simp only: if_False)
  from h1 r1 h2 r2 h3 h4 h5 h6 r3 h7 r4 k1 k2 k3 k4 k5 k6 r5 r6 k7 k8 r7
  show ?thesis by blast
qed

lemma makedirs_apply:
  "makedirs t w =
     (case fst (makedirs_fs t (fs w)) of None \<Rightarrow> Inr () | Some err \<Rightarrow> Inl err,
      w\<lparr>trace := trace w @ [Makedirs t], fs := snd (makedirs_fs t (fs w))\<rparr>)"
  by (simp add: makedirs_def fs_op_apply)

lemma mkdir_fs_isdir:
  "fst (mkdir_fs p f) = None \<Longrightarrow> isdir (snd (mkdir_fs p f)) p"
  by (auto simp: mkdir_fs_def isdir_def node_at_def lexists_def map_add_def
           split: if_splits)

lemma makedirs_fs_isdir:
  "fst (makedirs_fs p f) = None \<Longrightarrow> snd (makedirs_parts p) \<noteq> ''.'' \<Longrightarrow>
   isdir (snd (makedirs_fs p f)) p"
  by (subst makedirs_fs.simps, subst (asm) makedirs_fs.simps)
     (auto simp: mkdir_fs_isdir split: if_splits prod.splits)




section \<open>Programs that fetch nothing\<close>

lemma quiet_returnE: "quiet (returnE v)"
  by (simp add: quiet_def returnE_def)

lemma quiet_raiseE: "quiet (raiseE e)"
  by (simp add: quiet_def raiseE_def)

lemma quiet_log: "\<not> is_fetch e \<Longrightarrow> quiet (log e)"
  by (simp add: quiet_def log_def fetches_def)

lemma quiet_bindE: "quiet m \<Longrightarrow> (\<And>v. quiet (f v)) \<Longrightarrow> quiet (bindE m f)"
proof -
  assume m: "quiet m" and f: "\<And>v. quiet (f v)"
  show ?thesis
    unfolding quiet_def
  proof
    fix w
    show "fetches (snd (bindE m f w)) = fetches w"
    proof (cases "m w")
      case (Pair r w')
      with m have w': "fetches w' = fetches w"
        by (metis quiet_def snd_conv)
      show ?thesis
      proof (cases r)
        case (Inl e)
        with Pair w' show ?thesis by (simp add: bindE_def)
      next
        case (Inr v)
        from f [of v] have "fetches (snd (f v w')) = fetches w'"
          by (simp add: quiet_def)
        with Pair Inr w' show ?thesis by (simp add: bindE_def)
      qed
    qed
  qed
qed

lemma quiet_thenE: "quiet m \<Longrightarrow> quiet n \<Longrightarrow> quiet (thenE m n)"
  by (simp add: thenE_def quiet_bindE)

lemma quiet_cond: "quiet m \<Longrightarrow> quiet n \<Longrightarrow> quiet (\<lambda>w. if P w then m w else n w)"
  by (simp add: quiet_def)

lemma quiet_fs_op: "\<not> is_fetch e \<Longrightarrow> quiet (fs_op e g)"
  by (simp add: quiet_def fs_op_apply fetches_def)

lemma quiet_run: "quiet (run x cmd)"
  by (auto simp: quiet_def run_def thenE_def bindE_def log_def fetches_def is_fetch_def
           split: prod.splits)

lemma quiet_chdir: "quiet (chdir d)"
  by (auto simp: quiet_def chdir_def thenE_def bindE_def log_def fetches_def is_fetch_def)

lemma quiet_forE: "(\<And>v. quiet (body v)) \<Longrightarrow> quiet (forE vs body)"
  by (induction vs) (simp_all add: quiet_returnE quiet_thenE)

lemma quiet_rmtree: "quiet (rmtree d)"
  by (simp add: rmtree_def quiet_fs_op is_fetch_def)

lemma quiet_mkdir: "quiet (mkdir d)"
  by (simp add: mkdir_def quiet_fs_op is_fetch_def)

lemma quiet_remove: "quiet (remove d)"
  by (simp add: remove_def quiet_fs_op is_fetch_def)

lemma quiet_configure_windows: "quiet (configure_windows x c e v)"
  by (auto simp: configure_windows_def quiet_raiseE quiet_thenE quiet_run quiet_returnE
           split: sum.splits option.splits prod.splits)

lemma quiet_configure_posix: "quiet (configure_posix x p c e v)"
  by (auto simp: configure_posix_def Let_def quiet_raiseE quiet_thenE quiet_run quiet_returnE
           split: sum.splits)

lemma quiet_build_package: "quiet (build_package x p c b)"
  by (simp add: build_package_def quiet_thenE quiet_chdir quiet_run)

section \<open>Provisioning of the dependencies\<close>

lemma setup_ispc_present:
  "isdir (fs w) (join deps (ispc_release p)) \<Longrightarrow>
   setup_ispc x p deps w = (Inr (join3 (join deps (ispc_release p)) ''bin'' ''ispc''), w)"
  by (simp add: setup_ispc_def Let_def thenE_def bindE_def returnE_def)

lemma setup_tbb_present:
  "isdir (fs w) (join deps (tbb_release p)) \<Longrightarrow>
   setup_tbb x p deps w = (Inr (join (join deps (tbb_release p)) ''tbb''), w)"
  by (simp add: setup_tbb_def Let_def thenE_def bindE_def returnE_def)

lemma setup_ispc_value:
  "fst (setup_ispc x p deps w) = Inr v \<Longrightarrow> v = join3 (join deps (ispc_release p)) ''bin'' ''ispc''"
  by (auto simp: setup_ispc_def Let_def thenE_def bindE_def returnE_def
           split: sum.splits prod.splits if_splits)

lemma setup_tbb_value:
  "fst (setup_tbb x p deps w) = Inr v \<Longrightarrow> v = join (join deps (tbb_release p)) ''tbb''"
  by (auto simp: setup_tbb_def Let_def thenE_def bindE_def returnE_def
           split: sum.splits prod.splits if_splits)

lemma quiet_build_rest:
  "quiet (thenE (\<lambda>w. if isdir (fs w) b then rmtree b w else returnE () w)
    (thenE (mkdir b)
    (thenE (chdir b)
      (bindE (if p = windows then configure_windows x c e v else configure_posix x p c e v)
         (\<lambda>build_cmd. run x (g build_cmd))))))"
  by (intro quiet_thenE quiet_bindE quiet_cond quiet_rmtree quiet_returnE quiet_mkdir quiet_chdir
        quiet_run)
     (simp add: quiet_configure_windows quiet_configure_posix)

text \<open>
  C5. When the directory of ISPC, respectively of TBB, exists under the dependency
  directory, its provisioning step changes nothing, records no call at all, and returns
  the path that it returns after a download as well. With both directories there, the
  whole build stage adds no download, no opening of an archive and no extraction.
\<close>

theorem provisioning_idempotent:
  "(isdir (fs w) (join deps (ispc_release p)) \<longrightarrow>
      setup_ispc x p deps w = (Inr (join3 (join deps (ispc_release p)) ''bin'' ''ispc''), w))
   \<and> (isdir (fs w) (join deps (tbb_release p)) \<longrightarrow>
      setup_tbb x p deps w = (Inr (join (join deps (tbb_release p)) ''tbb''), w))
   \<and> (\<forall>v. fst (setup_ispc x p deps w) = Inr v \<longrightarrow>
          v = join3 (join deps (ispc_release p)) ''bin'' ''ispc'')
   \<and> (\<forall>v. fst (setup_tbb x p deps w) = Inr v \<longrightarrow>
          v = join (join deps (tbb_release p)) ''tbb'')
   \<and> (isdir (fs w) (join deps (ispc_release p)) \<and> isdir (fs w) (join deps (tbb_release p)) \<longrightarrow>
      fetches (snd (build_stage x p c deps b w)) = fetches w)"
proof -
  have "fetches (snd (build_stage x p c deps b w)) = fetches w"
    if i: "isdir (fs w) (join deps (ispc_release p))"
    and t: "isdir (fs w) (join deps (tbb_release p))"
    using quiet_build_rest [of b p x c]
    by (simp add: build_stage_def
          bindE_Inr [where m = "setup_ispc x p deps", OF setup_ispc_present [OF i]]
          bindE_Inr [where m = "setup_tbb x p deps", OF setup_tbb_present [OF t]]
          Let_def quiet_def)
  then show ?thesis
    using setup_ispc_present setup_tbb_present setup_ispc_value setup_tbb_value
    by blast
qed

theorem provisioning_idempotent_witness:
  "isdir (fs deps_world) (join ''/r/deps'' (ispc_release linux))
   \<and> isdir (fs deps_world) (join ''/r/deps'' (tbb_release linux))
   \<and> setup_ispc (pkg_ext 0 None) linux ''/r/deps'' deps_world
       = (Inr (join3 (join ''/r/deps'' (ispc_release linux)) ''bin'' ''ispc''), deps_world)
   \<and> setup_tbb (pkg_ext 0 None) linux ''/r/deps'' deps_world
       = (Inr (join (join ''/r/deps'' (tbb_release linux)) ''tbb''), deps_world)
   \<and> fetches (snd (build_stage (pkg_ext 0 None) linux (release_cfg [''build''])
                     ''/r/deps'' ''/r/build_release'' deps_world)) = fetches deps_world
   \<and> fetches deps_world = []
   \<and> join3 (join ''/r/deps'' (ispc_release linux)) ''bin'' ''ispc''
        = ''/r/deps/ispc-v1.13.0-linux/bin/ispc''
   \<and> join (join ''/r/deps'' (tbb_release linux)) ''tbb'' = ''/r/deps/tbb-2020.2-lin/tbb''"
proof -
  have i: "isdir (fs deps_world) (join ''/r/deps'' (ispc_release linux))" by code_simp
  have t: "isdir (fs deps_world) (join ''/r/deps'' (tbb_release linux))" by code_simp
  have e: "join3 (join ''/r/deps'' (ispc_release linux)) ''bin'' ''ispc''
             = ''/r/deps/ispc-v1.13.0-linux/bin/ispc''"
    by code_simp
  have r: "join (join ''/r/deps'' (tbb_release linux)) ''tbb'' = ''/r/deps/tbb-2020.2-lin/tbb''"
    by code_simp
  have f: "fetches deps_world = []" by code_simp
  note p = provisioning_idempotent [of deps_world "''/r/deps''" linux "pkg_ext 0 None"
      "release_cfg [''build'']" "''/r/build_release''"]
  from p i have a: "setup_ispc (pkg_ext 0 None) linux ''/r/deps'' deps_world
       = (Inr (join3 (join ''/r/deps'' (ispc_release linux)) ''bin'' ''ispc''), deps_world)"
    by blast
  from p t have b: "setup_tbb (pkg_ext 0 None) linux ''/r/deps'' deps_world
       = (Inr (join (join ''/r/deps'' (tbb_release linux)) ''tbb''), deps_world)"
    by blast
  from p i t have c: "fetches (snd (build_stage (pkg_ext 0 None) linux (release_cfg [''build''])
                     ''/r/deps'' ''/r/build_release'' deps_world)) = fetches deps_world"
    by blast
  from i t a b c f e r show ?thesis by blast
qed

section \<open>The package stage\<close>

text \<open>
  C6. After the package has been built: when the pattern \<open>oidn-*\<close> in the build
  directory matches nothing, the stage ends with an IndexError in the world the build
  left, in which no archive has been opened or extracted since the stage began; when it
  matches, the rest of the stage runs on the first match.
\<close>

theorem package_glob_first_match:
  assumes "build_package x p c b w = (Inr (), w1)"
  shows "(glob (fs w1) (join b ''oidn-*'') = [] \<longrightarrow>
            package_stage x p c b w = (Inl IndexError, w1) \<and> fetches w1 = fetches w)
       \<and> (\<forall>m ms. glob (fs w1) (join b ''oidn-*'') = m # ms \<longrightarrow>
            package_stage x p c b w = process_package x p b m w1)"
proof -
  have s: "package_stage x p c b w = bindE (find_package b) (process_package x p b) w1"
    using assms by (simp add: package_stage_def thenE_Inr)
  have q: "fetches w1 = fetches w"
    using quiet_build_package [of x p c b] assms
    by (metis quiet_def snd_conv)
  have e: "glob (fs w1) (join b ''oidn-*'') = [] \<Longrightarrow>
      package_stage x p c b w = (Inl IndexError, w1)"
    by (simp add: s bindE_def find_package_def)
  have n: "glob (fs w1) (join b ''oidn-*'') = m # ms \<Longrightarrow>
      package_stage x p c b w = process_package x p b m w1" for m ms
    by (simp add: s bindE_def find_package_def)
  from q e n show ?thesis by blast
qed

theorem package_glob_first_match_witness:
  "build_package symbols_ext linux (release_cfg [''package'']) ''/r/build_release'' pkg_world
     = (Inr (), snd (build_package symbols_ext linux (release_cfg [''package''])
                       ''/r/build_release'' pkg_world))
   \<and> glob (fs (snd (build_package symbols_ext linux (release_cfg [''package''])
                       ''/r/build_release'' pkg_world))) (join ''/r/build_release'' ''oidn-*'') = []
   \<and> fst (package_stage symbols_ext linux (release_cfg [''package'']) ''/r/build_release'' pkg_world)
       = Inl IndexError
   \<and> build_package (pkg_ext 0 None) linux (release_cfg [''package'']) ''/r/build_release'' pkg_world
     = (Inr (), snd (build_package (pkg_ext 0 None) linux (release_cfg [''package''])
                       ''/r/build_release'' pkg_world))
   \<and> glob (fs (snd (build_package (pkg_ext 0 None) linux (release_cfg [''package''])
                       ''/r/build_release'' pkg_world))) (join ''/r/build_release'' ''oidn-*'')
       = [pkg_file]
   \<and> package_stage (pkg_ext 0 None) linux (release_cfg [''package'']) ''/r/build_release'' pkg_world
       = process_package (pkg_ext 0 None) linux ''/r/build_release'' pkg_file
           (snd (build_package (pkg_ext 0 None) linux (release_cfg [''package''])
                   ''/r/build_release'' pkg_world))"
proof -
  let ?c = "release_cfg [''package'']"
  let ?b = "''/r/build_release''"
  have a0: "fst (build_package symbols_ext linux ?c ?b pkg_world) = Inr ()" by code_simp
  then have a1: "build_package symbols_ext linux ?c ?b pkg_world
      = (Inr (), snd (build_package symbols_ext linux ?c ?b pkg_world))"
    by (metis prod.collapse)
  have a2: "glob (fs (snd (build_package symbols_ext linux ?c ?b pkg_world))) (join ?b ''oidn-*'') = []"
    by code_simp
  have b0: "fst (build_package (pkg_ext 0 None) linux ?c ?b pkg_world) = Inr ()" by code_simp
  then have b1: "build_package (pkg_ext 0 None) linux ?c ?b pkg_world
      = (Inr (), snd (build_package (pkg_ext 0 None) linux ?c ?b pkg_world))"
    by (metis prod.collapse)
  have b2: "glob (fs (snd (build_package (pkg_ext 0 None) linux ?c ?b pkg_world)))
      (join ?b ''oidn-*'') = [pkg_file]"
    by code_simp
  from package_glob_first_match [OF a1] a2
  have a3: "fst (package_stage symbols_ext linux ?c ?b pkg_world) = Inl IndexError"
    by simp
  from package_glob_first_match [OF b1] b2
  have b3: "package_stage (pkg_ext 0 None) linux ?c ?b pkg_world
       = process_package (pkg_ext 0 None) linux ?b pkg_file
           (snd (build_package (pkg_ext 0 None) linux ?c ?b pkg_world))"
    by blast
  from a1 a2 a3 b1 b2 b3 show ?thesis by blast
qed

lemma check_symbols_apply:
  "check_symbols x f label m w =
     (check_lines f m (symbol_lines x f label w),
      w\<lparr>trace := trace w @ [Popen (nm_command f label)]\<rparr>)"
  by (simp add: check_symbols_def thenE_def bindE_def log_def symbol_lines_def)

lemma check_symbols_linux_fs: "fs (snd (check_symbols_linux x b w)) = fs w"
  by (auto simp: check_symbols_linux_def thenE_def bindE_def check_symbols_apply
           split: sum.splits)

lemma check_symbols_linux_same_fs:
  "fs w' = fs w \<Longrightarrow> fst (check_symbols_linux x b w') = fst (check_symbols_linux x b w)"
proof -
  assume "fs w' = fs w"
  then have "symbol_lines x b l w' = symbol_lines x b l w" for l
    by (simp add: symbol_lines_def)
  then show ?thesis
    by (simp only: check_symbols_linux_fst)
qed

lemma check_symbols_linux_pass:
  "fst (check_symbols_linux x b w) = Inr () \<Longrightarrow>
   snd (check_symbols_linux x b w) = w\<lparr>trace := trace w @ symbol_pipelines b\<rparr>"
  by (auto simp: check_symbols_linux_def thenE_def bindE_def check_symbols_apply
        symbol_pipelines_def split: sum.splits)

lemma check_all_linux:
  "(fst (forE bs (check_symbols_linux x) w) = Inr ())
      = list_all (\<lambda>b. fst (check_symbols_linux x b w) = Inr ()) bs
   \<and> (fst (forE bs (check_symbols_linux x) w) = Inr () \<longrightarrow>
        snd (forE bs (check_symbols_linux x) w)
          = w\<lparr>trace := trace w @ concat (map symbol_pipelines bs)\<rparr>)"
proof (induction bs arbitrary: w)
  case Nil
  show ?case by (simp add: returnE_def)
next
  case (Cons b bs)
  show ?case
  proof (cases "fst (check_symbols_linux x b w)")
    case (Inl e)
    then have "forE (b # bs) (check_symbols_linux x) w = (Inl e, snd (check_symbols_linux x b w))"
      by (simp add: thenE_Inl [of _ _ e "snd (check_symbols_linux x b w)"]
            prod_eq_iff)
    with Inl show ?thesis by simp
  next
    case (Inr u)
    let ?w = "w\<lparr>trace := trace w @ symbol_pipelines b\<rparr>"
    from Inr have p: "check_symbols_linux x b w = (Inr (), ?w)"
      using check_symbols_linux_pass [of x b w] by (simp add: prod_eq_iff)
    then have f: "thenE (check_symbols_linux x b) (forE bs (check_symbols_linux x)) w
        = forE bs (check_symbols_linux x) ?w"
      by (rule thenE_Inr)
    have s: "fst (check_symbols_linux x c ?w) = fst (check_symbols_linux x c w)" for c
      by (rule check_symbols_linux_same_fs) simp
    from Cons.IH [of ?w] Inr show ?thesis
      by (simp add: f s)
  qed
qed

lemma regular_iff: "(isfile f b \<and> \<not> islink f b) = (node_at f b = Some Regular)"
  by (auto simp: isfile_def islink_def split: option.splits node.splits)

text \<open>
  C8. The binaries are the matches of \<open>bin/*\<close> in the package directory, followed on
  Linux by those of \<open>lib/*.so*\<close> and on macOS by those of \<open>lib/*.dylib\<close>, without the
  entries that are not regular files (symbolic links to files included). After the
  extraction the stage checks and signs these binaries. On Linux the check passes
  exactly when \<open>check_symbols_linux\<close> passes on every binary, and it has then run the
  three pipelines on each of them in order; on another platform the check does nothing.
\<close>

theorem binaries_discovered_and_checked:
  "get_binaries p d f
     = filter (\<lambda>b. node_at f b = Some Regular)
         (glob f (join3 d ''bin'' ''*'')
          @ (case p of
               linux \<Rightarrow> glob f (join3 d ''lib'' ''*.so*'')
             | macos \<Rightarrow> glob f (join3 d ''lib'' ''*.dylib'')
             | windows \<Rightarrow> []))
   \<and> (extract_package x m b w = (Inr (), w1) \<longrightarrow>
        process_package x p b m w
          = thenE (check_binaries x p (get_binaries p (sub_end suffix_pattern m) (fs w1)))
             (thenE (sign_binaries x p (get_binaries p (sub_end suffix_pattern m) (fs w1)) m
                       (sub_end suffix_pattern m))
                    (rmtree (sub_end suffix_pattern m))) w1)
   \<and> (fst (check_binaries x linux bs v) = Inr ())
        = list_all (\<lambda>b. fst (check_symbols_linux x b v) = Inr ()) bs
   \<and> (fst (check_binaries x linux bs v) = Inr () \<longrightarrow>
        snd (check_binaries x linux bs v)
          = v\<lparr>trace := trace v @ concat (map symbol_pipelines bs)\<rparr>)
   \<and> (p \<noteq> linux \<longrightarrow> check_binaries x p bs v = (Inr (), v))"
proof -
  have a: "get_binaries p d f
     = filter (\<lambda>b. node_at f b = Some Regular)
         (glob f (join3 d ''bin'' ''*'')
          @ (case p of
               linux \<Rightarrow> glob f (join3 d ''lib'' ''*.so*'')
             | macos \<Rightarrow> glob f (join3 d ''lib'' ''*.dylib'')
             | windows \<Rightarrow> []))"
    by (cases p) (simp_all add: get_binaries_def regular_iff)
  have b: "extract_package x m b w = (Inr (), w1) \<Longrightarrow>
        process_package x p b m w
          = thenE (check_binaries x p (get_binaries p (sub_end suffix_pattern m) (fs w1)))
             (thenE (sign_binaries x p (get_binaries p (sub_end suffix_pattern m) (fs w1)) m
                       (sub_end suffix_pattern m))
                    (rmtree (sub_end suffix_pattern m))) w1"
    by (simp add: process_package_def thenE_Inr Let_def bindE_def)
  have c: "check_binaries x linux bs v = forE bs (check_symbols_linux x) v"
    by (simp add: check_binaries_def)
  have e: "p \<noteq> linux \<Longrightarrow> check_binaries x p bs v = (Inr (), v)"
    by (simp add: check_binaries_def returnE_def)
  from a b e check_all_linux [of bs x v] show ?thesis
    unfolding c by blast
qed

theorem binaries_discovered_and_checked_witness:
  "extract_package (pkg_ext 0 None) pkg_file ''/r/build_release'' built_world
     = (Inr (), snd (extract_package (pkg_ext 0 None) pkg_file ''/r/build_release'' built_world))
   \<and> get_binaries linux (sub_end suffix_pattern pkg_file)
         (fs (snd (extract_package (pkg_ext 0 None) pkg_file ''/r/build_release'' built_world)))
       = [pkg_bin, pkg_lib]
   \<and> fst (check_binaries (pkg_ext 0 None) linux [pkg_bin, pkg_lib] built_world) = Inr ()
   \<and> snd (check_binaries (pkg_ext 0 None) linux [pkg_bin, pkg_lib] built_world)
       = built_world\<lparr>trace := trace built_world @ concat (map symbol_pipelines [pkg_bin, pkg_lib])\<rparr>
   \<and> macos \<noteq> linux
   \<and> check_binaries (pkg_ext 0 None) macos [pkg_bin, pkg_lib] built_world = (Inr (), built_world)
   \<and> process_package (pkg_ext 0 None) linux ''/r/build_release'' pkg_file built_world
       = thenE (check_binaries (pkg_ext 0 None) linux [pkg_bin, pkg_lib])
          (thenE (sign_binaries (pkg_ext 0 None) linux [pkg_bin, pkg_lib] pkg_file
                    (sub_end suffix_pattern pkg_file))
                 (rmtree (sub_end suffix_pattern pkg_file)))
          (snd (extract_package (pkg_ext 0 None) pkg_file ''/r/build_release'' built_world))"
proof -
  let ?x = "pkg_ext 0 None"
  let ?w1 = "snd (extract_package ?x pkg_file ''/r/build_release'' built_world)"
  have e0: "fst (extract_package ?x pkg_file ''/r/build_release'' built_world) = Inr ()"
    by code_simp
  then have e: "extract_package ?x pkg_file ''/r/build_release'' built_world = (Inr (), ?w1)"
    by (metis prod.collapse)
  have g: "get_binaries linux (sub_end suffix_pattern pkg_file) (fs ?w1) = [pkg_bin, pkg_lib]"
    by code_simp
  have c1: "fst (check_symbols_linux ?x pkg_bin built_world) = Inr ()" by code_simp
  have c2: "fst (check_symbols_linux ?x pkg_lib built_world) = Inr ()" by code_simp
  have m: "macos \<noteq> linux" by simp
  note t = binaries_discovered_and_checked [of linux "sub_end suffix_pattern pkg_file" "fs ?w1"
      ?x pkg_file "''/r/build_release''" built_world ?w1 "[pkg_bin, pkg_lib]" built_world]
  note u = binaries_discovered_and_checked [of macos "sub_end suffix_pattern pkg_file" "fs ?w1"
      ?x pkg_file "''/r/build_release''" built_world ?w1 "[pkg_bin, pkg_lib]" built_world]
  from t c1 c2
  have p: "fst (check_binaries ?x linux [pkg_bin, pkg_lib] built_world) = Inr ()"
    by simp
  with t have q: "snd (check_binaries ?x linux [pkg_bin, pkg_lib] built_world)
       = built_world\<lparr>trace := trace built_world @ concat (map symbol_pipelines [pkg_bin, pkg_lib])\<rparr>"
    by blast
  from u m have r: "check_binaries ?x macos [pkg_bin, pkg_lib] built_world = (Inr (), built_world)"
    by blast
  from t e have s: "process_package ?x linux ''/r/build_release'' pkg_file built_world
       = thenE (check_binaries ?x linux (get_binaries linux (sub_end suffix_pattern pkg_file) (fs ?w1)))
          (thenE (sign_binaries ?x linux (get_binaries linux (sub_end suffix_pattern pkg_file) (fs ?w1))
                    pkg_file (sub_end suffix_pattern pkg_file))
                 (rmtree (sub_end suffix_pattern pkg_file))) ?w1"
    by blast
  from e g p q m r s show ?thesis by (simp only: g) blast
qed

lemma thenE_success:
  "thenE m n w = (Inr v, w') \<Longrightarrow> \<exists>w1. m w = (Inr (), w1) \<and> n w1 = (Inr v, w')"
  by (auto simp: thenE_def bindE_def split: prod.splits sum.splits)

lemma bindE_success:
  "bindE m f w = (Inr v, w') \<Longrightarrow> \<exists>u w1. m w = (Inr u, w1) \<and> f u w1 = (Inr v, w')"
  by (auto simp: bindE_def split: prod.splits sum.splits)

lemma rmtree_gone: "rmtree d w = (Inr (), w') \<Longrightarrow> gone (fs w') d"
  by (auto simp: rmtree_def fs_op_apply rmtree_fs_def gone_def list_all_iff
           split: option.splits if_splits)

lemma process_package_gone:
  "process_package x p b m w = (Inr (), w') \<Longrightarrow> gone (fs w') (sub_end suffix_pattern m)"
proof -
  assume a: "process_package x p b m w = (Inr (), w')"
  let ?d = "sub_end suffix_pattern m"
  from a obtain w1 where
    "bindE (\<lambda>w. (Inr (get_binaries p ?d (fs w)), w))
       (\<lambda>binaries. thenE (check_binaries x p binaries)
          (thenE (sign_binaries x p binaries m ?d) (rmtree ?d))) w1 = (Inr (), w')"
    unfolding process_package_def Let_def by (blast dest: thenE_success)
  then obtain bs w2 where
    "thenE (check_binaries x p bs) (thenE (sign_binaries x p bs m ?d) (rmtree ?d)) w2
       = (Inr (), w')"
    by (blast dest: bindE_success)
  then obtain w3 where "thenE (sign_binaries x p bs m ?d) (rmtree ?d) w3 = (Inr (), w')"
    by (blast dest: thenE_success)
  then obtain w4 where "rmtree ?d w4 = (Inr (), w')"
    by (blast dest: thenE_success)
  then show ?thesis by (rule rmtree_gone)
qed

text \<open>
  C2, as the script has it. A package stage that returns normally has removed the
  directory named after the first match of the package pattern, and everything below
  it, whether a signing tool is configured or not. After a successful extraction, an
  error of the symbol check or of the signing step (the repacking included) ends the
  stage in the world in which it occurred: the removal is not reached.
\<close>

theorem package_dir_removed_on_success:
  assumes "extract_package x m b w = (Inr (), w1)"
      and "d = sub_end suffix_pattern m"
      and "bs = get_binaries p d (fs w1)"
  shows "(\<forall>e. fst (check_binaries x p bs w1) = Inl e \<longrightarrow>
            process_package x p b m w = (Inl e, snd (check_binaries x p bs w1)))
       \<and> (\<forall>e. fst (check_binaries x p bs w1) = Inr ()
              \<and> fst (sign_binaries x p bs m d (snd (check_binaries x p bs w1))) = Inl e \<longrightarrow>
            process_package x p b m w
              = (Inl e, snd (sign_binaries x p bs m d (snd (check_binaries x p bs w1)))))
       \<and> (fst (check_binaries x p bs w1) = Inr ()
              \<and> fst (sign_binaries x p bs m d (snd (check_binaries x p bs w1))) = Inr () \<longrightarrow>
            process_package x p b m w
              = rmtree d (snd (sign_binaries x p bs m d (snd (check_binaries x p bs w1)))))
       \<and> (fst (process_package x p b m w) = Inr () \<longrightarrow>
            gone (fs (snd (process_package x p b m w))) d)
       \<and> (fst (package_stage x p c b v) = Inr () \<longrightarrow>
            (\<exists>v1 m' ms. build_package x p c b v = (Inr (), v1)
               \<and> glob (fs v1) (join b ''oidn-*'') = m' # ms
               \<and> gone (fs (snd (package_stage x p c b v))) (sub_end suffix_pattern m')))"
proof -
  let ?chk = "check_binaries x p bs"
  let ?sgn = "sign_binaries x p bs m d"
  have pp: "process_package x p b m w = thenE ?chk (thenE ?sgn (rmtree d)) w1"
    using assms by (simp add: process_package_def thenE_Inr Let_def bindE_def)
  have a: "fst (?chk w1) = Inl e \<Longrightarrow> process_package x p b m w = (Inl e, snd (?chk w1))" for e
    by (simp add: pp thenE_Inl [of ?chk w1 e "snd (?chk w1)"] prod_eq_iff)
  have k: "fst (?chk w1) = Inr () \<Longrightarrow>
      process_package x p b m w = thenE ?sgn (rmtree d) (snd (?chk w1))"
    by (simp add: pp thenE_Inr [of ?chk w1 "snd (?chk w1)"] prod_eq_iff)
  have b: "fst (?chk w1) = Inr () \<Longrightarrow> fst (?sgn (snd (?chk w1))) = Inl e \<Longrightarrow>
      process_package x p b m w = (Inl e, snd (?sgn (snd (?chk w1))))" for e
    by (simp add: k thenE_Inl [of ?sgn "snd (?chk w1)" e "snd (?sgn (snd (?chk w1)))"]
          prod_eq_iff)
  have c: "fst (?chk w1) = Inr () \<Longrightarrow> fst (?sgn (snd (?chk w1))) = Inr () \<Longrightarrow>
      process_package x p b m w = rmtree d (snd (?sgn (snd (?chk w1))))"
    by (simp add: k thenE_Inr [of ?sgn "snd (?chk w1)" "snd (?sgn (snd (?chk w1)))"]
          prod_eq_iff)
  have g: "fst (process_package x p b m w) = Inr () \<Longrightarrow>
      gone (fs (snd (process_package x p b m w))) d"
    using process_package_gone [of x p b m w "snd (process_package x p b m w)"] assms(2)
    by (simp add: prod_eq_iff)
  have s: "\<exists>v1 m' ms. build_package x p c b v = (Inr (), v1)
               \<and> glob (fs v1) (join b ''oidn-*'') = m' # ms
               \<and> gone (fs (snd (package_stage x p c b v))) (sub_end suffix_pattern m')"
    if ok: "fst (package_stage x p c b v) = Inr ()"
  proof -
    from ok have e: "package_stage x p c b v = (Inr (), snd (package_stage x p c b v))"
      by (simp add: prod_eq_iff)
    then obtain v1 where v1: "build_package x p c b v = (Inr (), v1)"
      and r: "bindE (find_package b) (process_package x p b) v1
                = (Inr (), snd (package_stage x p c b v))"
      unfolding package_stage_def by (blast dest: thenE_success)
    from r obtain m' v2 where f: "find_package b v1 = (Inr m', v2)"
      and q: "process_package x p b m' v2 = (Inr (), snd (package_stage x p c b v))"
      by (blast dest: bindE_success)
    from f obtain ms where "glob (fs v1) (join b ''oidn-*'') = m' # ms"
      by (auto simp: find_package_def split: list.splits)
    with v1 process_package_gone [OF q] show ?thesis by blast
  qed
  from a b c g s show ?thesis by blast
qed

theorem package_dir_removed_on_success_witness:
  "extract_package (pkg_ext 0 (Some ''/opt/sign'')) pkg_file ''/r/build_release'' built_world
     = (Inr (), snd (extract_package (pkg_ext 0 (Some ''/opt/sign'')) pkg_file
                       ''/r/build_release'' built_world))
   \<and> fst (process_package (pkg_ext 0 (Some ''/opt/sign'')) linux ''/r/build_release'' pkg_file
            built_world) = Inr ()
   \<and> gone (fs (snd (process_package (pkg_ext 0 (Some ''/opt/sign'')) linux ''/r/build_release''
                       pkg_file built_world)))
        (sub_end suffix_pattern pkg_file)
   \<and> fst (package_stage (pkg_ext 0 None) linux (release_cfg [''package'']) ''/r/build_release''
            pkg_world) = Inr ()
   \<and> (\<exists>v1 m' ms. build_package (pkg_ext 0 None) linux (release_cfg [''package''])
                     ''/r/build_release'' pkg_world = (Inr (), v1)
         \<and> glob (fs v1) (join ''/r/build_release'' ''oidn-*'') = m' # ms
         \<and> gone (fs (snd (package_stage (pkg_ext 0 None) linux (release_cfg [''package''])
                             ''/r/build_release'' pkg_world)))
              (sub_end suffix_pattern m'))"
proof -
  let ?x = "pkg_ext 0 (Some ''/opt/sign'')"
  let ?b = "''/r/build_release''"
  let ?w1 = "snd (extract_package ?x pkg_file ?b built_world)"
  have e0: "fst (extract_package ?x pkg_file ?b built_world) = Inr ()"
    by code_simp
  then have e: "extract_package ?x pkg_file ?b built_world = (Inr (), ?w1)"
    by (metis prod.collapse)
  have ok: "fst (process_package ?x linux ?b pkg_file built_world) = Inr ()"
    by code_simp
  have ok2: "fst (package_stage (pkg_ext 0 None) linux (release_cfg [''package'']) ?b pkg_world)
      = Inr ()"
    by code_simp
  note t = package_dir_removed_on_success [OF e refl refl, of linux "release_cfg [''package'']"
      pkg_world]
  from t ok have g: "gone (fs (snd (process_package ?x linux ?b pkg_file built_world)))
        (sub_end suffix_pattern pkg_file)"
    by blast
  have e0': "fst (extract_package (pkg_ext 0 None) pkg_file ?b built_world) = Inr ()"
    by code_simp
  then have e': "extract_package (pkg_ext 0 None) pkg_file ?b built_world
      = (Inr (), snd (extract_package (pkg_ext 0 None) pkg_file ?b built_world))"
    by (metis prod.collapse)
  from package_dir_removed_on_success [OF e' refl refl, of linux "release_cfg [''package'']"
      pkg_world] ok2
  have s: "\<exists>v1 m' ms. build_package (pkg_ext 0 None) linux (release_cfg [''package''])
                     ?b pkg_world = (Inr (), v1)
         \<and> glob (fs v1) (join ?b ''oidn-*'') = m' # ms
         \<and> gone (fs (snd (package_stage (pkg_ext 0 None) linux (release_cfg [''package''])
                             ?b pkg_world)))
              (sub_end suffix_pattern m')"
    by blast
  from e ok g ok2 s show ?thesis by blast
qed

text \<open>
  A run in which the signing tool fails: the stage ends with the error of \<open>run\<close>, and the
  extracted directory is still there.
\<close>

theorem failed_signing_keeps_package_dir:
  "fst (main (pkg_ext 1 (Some ''/opt/sign'')) (release_args [''package'']) pkg_world)
     = Inl NonZeroReturn
   \<and> isdir (fs (snd (main (pkg_ext 1 (Some ''/opt/sign'')) (release_args [''package''])
                       pkg_world)))
        ''/r/build_release/oidn-1.2''
   \<and> \<not> gone (fs (snd (main (pkg_ext 1 (Some ''/opt/sign'')) (release_args [''package''])
                         pkg_world)))
          (sub_end suffix_pattern pkg_file)"
  by code_simp

section \<open>A run without a stage\<close>

lemma startswith_refl: "startswith s s"
  by (simp add: startswith_def)

lemma startswith_append: "startswith (a @ b) a"
  by (simp add: startswith_def)

lemma startswith_trans: "startswith a b \<Longrightarrow> startswith b c \<Longrightarrow> startswith a c"
proof -
  assume ab: "startswith a b" and bc: "startswith b c"
  from ab have "a = b @ drop (length b) a"
    by (metis append_take_drop_id startswith_def)
  moreover from bc have "b = c @ drop (length c) b"
    by (metis append_take_drop_id startswith_def)
  ultimately have "a = c @ (drop (length c) b @ drop (length b) a)"
    by (metis append.assoc)
  then show ?thesis
    by (metis startswith_append)
qed

lemma startswith_rstrip: "startswith s (rstrip_slashes s)"
proof -
  have "rev s = takeWhile (\<lambda>c. c = CHR ''/'') (rev s) @ dropWhile (\<lambda>c. c = CHR ''/'') (rev s)"
    by simp
  then have "s = rstrip_slashes s @ rev (takeWhile (\<lambda>c. c = CHR ''/'') (rev s))"
    unfolding rstrip_slashes_def by (metis rev_append rev_rev_ident)
  then show ?thesis by (metis startswith_append)
qed

lemma startswith_take: "startswith s (take n s)"
  by (metis append_take_drop_id startswith_append)

lemma startswith_split_head: "startswith p (fst (path_split p))"
  by (auto simp: path_split_def Let_def startswith_take
           intro: startswith_trans [OF startswith_take startswith_rstrip])

lemma startswith_parts_head: "startswith p (fst (makedirs_parts p))"
  by (auto simp: makedirs_parts_def startswith_split_head
           intro: startswith_trans [OF startswith_split_head startswith_split_head])

lemma mkdir_fs_adds:
  "\<exists>qs. snd (mkdir_fs p f) = f @ map (\<lambda>q. (q, Directory)) qs \<and> (\<forall>q\<in>set qs. startswith p q)"
proof (cases "snd (mkdir_fs p f) = f")
  case True
  then have "snd (mkdir_fs p f) = f @ map (\<lambda>q. (q, Directory)) [] \<and> (\<forall>q\<in>set []. startswith p q)"
    by simp
  then show ?thesis by blast
next
  case False
  then have "snd (mkdir_fs p f) = f @ map (\<lambda>q. (q, Directory)) [rstrip_slashes p]"
    by (auto simp: mkdir_fs_def split: if_splits)
  moreover have "\<forall>q\<in>set [rstrip_slashes p]. startswith p q"
    by (simp add: startswith_rstrip)
  ultimately show ?thesis by blast
qed

lemma makedirs_fs_adds:
  "\<exists>qs. snd (makedirs_fs p f) = f @ map (\<lambda>q. (q, Directory)) qs \<and> (\<forall>q\<in>set qs. startswith p q)"
proof (induction p f rule: makedirs_fs.induct)
  case (1 name f)
  let ?h = "fst (makedirs_parts name)"
  show ?case
  proof (cases "?h \<noteq> [] \<and> snd (makedirs_parts name) \<noteq> [] \<and> \<not> path_exists f ?h")
    case False
    then have "makedirs_fs name f = mkdir_fs name f"
      by (subst makedirs_fs.simps) auto
    with mkdir_fs_adds [of name f] show ?thesis by simp
  next
    case True
    from 1 [OF True] obtain qs where
      q: "snd (makedirs_fs ?h f) = f @ map (\<lambda>q. (q, Directory)) qs"
      and s: "\<forall>q\<in>set qs. startswith ?h q"
      by blast
    from s have s': "\<forall>q\<in>set qs. startswith name q"
      by (blast intro: startswith_trans [OF startswith_parts_head])
    let ?f' = "snd (makedirs_fs ?h f)"
    have "snd (makedirs_fs name f) = ?f' \<or> snd (makedirs_fs name f) = snd (mkdir_fs name ?f')"
      using True by (subst makedirs_fs.simps, subst (2) makedirs_fs.simps)
        (auto split: prod.splits)
    then show ?thesis
    proof
      assume "snd (makedirs_fs name f) = ?f'"
      with q have "snd (makedirs_fs name f) = f @ map (\<lambda>q. (q, Directory)) qs" by simp
      with s' show ?thesis by blast
    next
      assume m: "snd (makedirs_fs name f) = snd (mkdir_fs name ?f')"
      from mkdir_fs_adds [of name ?f'] obtain rs where
        r: "snd (mkdir_fs name ?f') = ?f' @ map (\<lambda>q. (q, Directory)) rs"
        and t: "\<forall>q\<in>set rs. startswith name q"
        by blast
      from m r q have "snd (makedirs_fs name f) = f @ map (\<lambda>q. (q, Directory)) (qs @ rs)"
        by simp
      moreover from s' t have "\<forall>q\<in>set (qs @ rs). startswith name q" by auto
      ultimately show ?thesis by blast
    qed
  qed
qed

lemma basename_join_deps: "snd (path_split (join r ''deps'')) = ''deps''"
proof -
  have "join r ''deps'' = r @ ''deps'' \<and> (r = [] \<or> endswith r ''/'') \<or> join r ''deps'' = r @ ''/deps''"
    by (auto simp: join_def startswith_def)
  then have "\<exists>a. join r ''deps'' = a @ ''/deps'' \<or> join r ''deps'' = ''deps''"
  proof
    assume a: "join r ''deps'' = r @ ''deps'' \<and> (r = [] \<or> endswith r ''/'')"
    show ?thesis
    proof (cases "r = []")
      case True
      with a show ?thesis by simp
    next
      case False
      with a have "endswith r ''/''" by simp
      then have "r = take (length r - 1) r @ ''/''"
        by (metis append_take_drop_id endswith_def length_Cons list.size(3) One_nat_def)
      with a have "join r ''deps'' = take (length r - 1) r @ ''/deps''"
        by (metis append.assoc append_Cons append_Nil)
      then show ?thesis by blast
    qed
  next
    assume "join r ''deps'' = r @ ''/deps''"
    then show ?thesis by blast
  qed
  then show ?thesis
    by (auto simp: path_split_def Let_def basename_def)
qed

lemma parse_args_rejects_empty:
  "stages a = [] \<Longrightarrow> empty_choice_checked x \<Longrightarrow> parse_args x p a = Inl (SystemExit 2)"
  by (simp add: parse_args_def)

lemma parse_args_accepts_empty:
  "stages a = [] \<Longrightarrow> \<not> empty_choice_checked x \<Longrightarrow>
   choice_ok (compilers p) (compiler_arg a) \<Longrightarrow>
   choice_ok [''Debug'', ''Release'', ''RelWithDebInfo''] (config_arg a) \<Longrightarrow>
   \<exists>c. parse_args x p a = Inr c \<and> stage c = []"
  by (cases p) (simp_all add: parse_args_def compilers_def)

text \<open>
  C10, as the script has it. Take a supported platform and a command line with no stage
  and valid options. Where \<open>argparse\<close> checks the empty list of stages against the
  choices, the program exits with status 2 and changes nothing. Where it does not, a run
  with the dependency directory in place changes nothing, and any other run is one call
  of \<open>os.makedirs\<close> on the dependency directory, after which (when it returns normally)
  that directory is in place. In every case the file system keeps every entry and gains
  only directories spelled as prefixes of the path of the dependency directory (the
  directory and its missing ancestors, the root directory among them), and the current
  directory stays.
\<close>

theorem no_stage_makes_deps_and_ancestors:
  assumes "stages a = []"
      and "detect_os (platform_system x) = Inr p"
      and "choice_ok (compilers p) (compiler_arg a)"
      and "choice_ok [''Debug'', ''Release'', ''RelWithDebInfo''] (config_arg a)"
      and "deps = join (root_dir_of x w) ''deps''"
  shows "(empty_choice_checked x \<longrightarrow> main x a w = (Inl (SystemExit 2), w))
       \<and> (\<not> empty_choice_checked x \<longrightarrow>
            (isdir (fs w) deps \<longrightarrow> main x a w = (Inr (), w))
          \<and> (\<not> isdir (fs w) deps \<longrightarrow> main x a w = makedirs deps w)
          \<and> (fst (main x a w) = Inr () \<longrightarrow> isdir (fs (snd (main x a w))) deps))
       \<and> (\<exists>qs. fs (snd (main x a w)) = fs w @ map (\<lambda>q. (q, Directory)) qs
                \<and> (\<forall>q\<in>set qs. startswith deps q))
       \<and> cwd (snd (main x a w)) = cwd w"
proof (cases "empty_choice_checked x")
  case True
  with assms(1) have "parse_args x p a = Inl (SystemExit 2)"
    by (simp add: parse_args_rejects_empty)
  with assms(2) have m: "main x a w = (Inl (SystemExit 2), w)"
    by (simp add: main_def bindE_def)
  then have "fs (snd (main x a w)) = fs w @ map (\<lambda>q. (q, Directory)) []
      \<and> (\<forall>q\<in>set []. startswith deps q)"
    by simp
  then have "\<exists>qs. fs (snd (main x a w)) = fs w @ map (\<lambda>q. (q, Directory)) qs
                \<and> (\<forall>q\<in>set qs. startswith deps q)"
    by blast
  with True m show ?thesis by simp
next
  case False
  from parse_args_accepts_empty [OF assms(1) False assms(3) assms(4)]
  obtain c where c: "parse_args x p a = Inr c" and s: "stage c = []"
    by blast
  have a: "isdir (fs w) deps \<Longrightarrow> main x a w = (Inr (), w)"
    using assms(2) assms(5) c s
    by (simp add: main_def set_directories_def bindE_def thenE_def returnE_def Let_def)
  have b: "\<not> isdir (fs w) deps \<Longrightarrow> main x a w = makedirs deps w"
    using assms(2) assms(5) c s
    by (simp add: main_def set_directories_def bindE_def thenE_def returnE_def Let_def
          makedirs_apply split: option.splits)
  have parts: "snd (makedirs_parts deps) = ''deps''"
    using basename_join_deps [of "root_dir_of x w"] assms(5)
    by (simp add: makedirs_parts_def)
  have e: "\<exists>qs. fs (snd (main x a w)) = fs w @ map (\<lambda>q. (q, Directory)) qs
                \<and> (\<forall>q\<in>set qs. startswith deps q)"
  proof (cases "isdir (fs w) deps")
    case True
    with a have "fs (snd (main x a w)) = fs w @ map (\<lambda>q. (q, Directory)) []" by simp
    moreover have "\<forall>q\<in>set []. startswith deps q" by simp
    ultimately show ?thesis by blast
  next
    case False
    with b have "fs (snd (main x a w)) = snd (makedirs_fs deps (fs w))"
      by (simp add: makedirs_apply)
    with makedirs_fs_adds [of deps "fs w"] show ?thesis by simp
  qed
  have k: "cwd (snd (main x a w)) = cwd w"
    using a b by (cases "isdir (fs w) deps") (simp_all add: makedirs_apply)
  have g: "fst (main x a w) = Inr () \<Longrightarrow> isdir (fs (snd (main x a w))) deps"
  proof (cases "isdir (fs w) deps")
    case True
    with a show ?thesis by simp
  next
    case nd: False
    assume "fst (main x a w) = Inr ()"
    with nd b have "fst (makedirs_fs deps (fs w)) = None"
      by (simp add: makedirs_apply split: option.splits)
    with parts have "isdir (snd (makedirs_fs deps (fs w))) deps"
      by (simp add: makedirs_fs_isdir)
    with nd b show ?thesis by (simp add: makedirs_apply)
  qed
  from False a b e k g show ?thesis by blast
qed

theorem no_stage_makes_deps_and_ancestors_witness:
  "stages (release_args []) = []
   \<and> detect_os (platform_system (pkg_ext 0 None)) = Inr linux
   \<and> detect_os (platform_system old_argparse_ext) = Inr linux
   \<and> choice_ok (compilers linux) (compiler_arg (release_args []))
   \<and> choice_ok [''Debug'', ''Release'', ''RelWithDebInfo''] (config_arg (release_args []))
   \<and> empty_choice_checked old_argparse_ext
   \<and> main old_argparse_ext (release_args []) empty_world = (Inl (SystemExit 2), empty_world)
   \<and> \<not> empty_choice_checked (pkg_ext 0 None)
   \<and> \<not> isdir (fs empty_world) (join (root_dir_of (pkg_ext 0 None) empty_world) ''deps'')
   \<and> main (pkg_ext 0 None) (release_args []) empty_world
       = makedirs (join (root_dir_of (pkg_ext 0 None) empty_world) ''deps'') empty_world
   \<and> isdir (fs pkg_world) (join (root_dir_of (pkg_ext 0 None) pkg_world) ''deps'')
   \<and> main (pkg_ext 0 None) (release_args []) pkg_world = (Inr (), pkg_world)"
proof -
  have s: "stages (release_args []) = []" by (simp add: release_args_def)
  have o: "detect_os (platform_system (pkg_ext 0 None)) = Inr linux" by code_simp
  have o': "detect_os (platform_system old_argparse_ext) = Inr linux" by code_simp
  have c1: "choice_ok (compilers linux) (compiler_arg (release_args []))" by code_simp
  have c2: "choice_ok [''Debug'', ''Release'', ''RelWithDebInfo''] (config_arg (release_args []))"
    by code_simp
  have q: "empty_choice_checked old_argparse_ext" by code_simp
  have q': "\<not> empty_choice_checked (pkg_ext 0 None)" by code_simp
  have n: "\<not> isdir (fs empty_world) (join (root_dir_of (pkg_ext 0 None) empty_world) ''deps'')"
    by code_simp
  have y: "isdir (fs pkg_world) (join (root_dir_of (pkg_ext 0 None) pkg_world) ''deps'')"
    by code_simp
  from no_stage_makes_deps_and_ancestors [OF s o' c1 c2 refl, of empty_world] q
  have r: "main old_argparse_ext (release_args []) empty_world = (Inl (SystemExit 2), empty_world)"
    by blast
  from no_stage_makes_deps_and_ancestors [OF s o c1 c2 refl, of empty_world] q' n
  have m: "main (pkg_ext 0 None) (release_args []) empty_world
       = makedirs (join (root_dir_of (pkg_ext 0 None) empty_world) ''deps'') empty_world"
    by blast
  from no_stage_makes_deps_and_ancestors [OF s o c1 c2 refl, of pkg_world] q' y
  have k: "main (pkg_ext 0 None) (release_args []) pkg_world = (Inr (), pkg_world)"
    by blast
  from s o o' c1 c2 q r q' n m y k show ?thesis by blast
qed

text \<open>
  Two runs without a stage where the root directory \<open>/r\<close> is missing. Where \<open>argparse\<close>
  accepts the empty list, the root directory is made as well as the dependency
  directory. Where it checks the empty list, the program exits and no directory is made.
\<close>

theorem no_stage_creates_root_dir:
  "\<not> lexists (fs empty_world) ''/r''
   \<and> \<not> empty_choice_checked (pkg_ext 0 None)
   \<and> main (pkg_ext 0 None) (release_args []) empty_world
       = (Inr (), \<lparr>fs = [(''/r'', Directory), (''/r/deps'', Directory)], cwd = ''/'',
                   trace = [Makedirs ''/r/deps'']\<rparr>)
   \<and> empty_choice_checked old_argparse_ext
   \<and> main old_argparse_ext (release_args []) empty_world = (Inl (SystemExit 2), empty_world)
   \<and> \<not> isdir (fs (snd (main old_argparse_ext (release_args []) empty_world))) ''/r/deps''"
  by code_simp

end
